theory Spec2Isabelle
  imports
    Complex_Main
    "HOL-Library.Word"
    "HOL-Library.AList"
    "HOL-Library.Char_ord"
    "HOL-Library.List_Lexorder"
begin

section \<open>Store service: data model\<close>

text \<open>
  The development follows \<^verbatim>\<open>internal/data/store.go\<close> (the DynamoDB-backed item store)
  and the gRPC handler of package \<^verbatim>\<open>server\<close>. Logging, metrics and tracing calls have
  no influence on any returned value and are left out. Each Go function that returns
  several values is a function into the tuple of these values, with the \<^verbatim>\<open>error\<close>
  result as an \<open>error option\<close> (\<open>None\<close> is \<^verbatim>\<open>nil\<close>); every function that talks to
  the backing store takes the state of the backing store and returns the new one.
\<close>

subsection \<open>Scalars\<close>

text \<open>
  \<^verbatim>\<open>int32\<close> and \<^verbatim>\<open>int64\<close> are machine words, read with \<open>sint\<close>. A \<^verbatim>\<open>float64\<close> price is
  a real number (the finite values; NaN and the infinities are outside the model). A
  \<^verbatim>\<open>time.Time\<close> is the instant it denotes, in nanoseconds since the Unix epoch.
\<close>

type_synonym int32 = "32 word"
type_synonym int64 = "64 word"
type_synonym float64 = real
type_synonym time = int

text \<open>The zero \<^verbatim>\<open>time.Time\<close>: January 1, year 1, 00:00:00 UTC.\<close>

definition zero_time :: time where
  "zero_time = - 62135596800 * 1000000000"

text \<open>
  \<^verbatim>\<open>t.Format(time.RFC3339)\<close> prints whole seconds only, so reading the text back gives
  the instant with its fraction of a second cut off.
\<close>

definition Format_RFC3339 :: "time \<Rightarrow> time" where
  "Format_RFC3339 t = (t div 1000000000) * 1000000000"

text \<open>\<^verbatim>\<open>fmt.Sprintf("%d", n)\<close>: the decimal digits, with a minus sign below zero.\<close>

fun dec_nat :: "nat \<Rightarrow> string" where
  "dec_nat n =
     (if n < 10 then [''0123456789'' ! n]
      else dec_nat (n div 10) @ [''0123456789'' ! (n mod 10)])"

declare dec_nat.simps [simp del]

definition Sprintf_d :: "int \<Rightarrow> string" where
  "Sprintf_d i = (if i < 0 then ''-'' @ dec_nat (nat (- i)) else dec_nat (nat i))"

text \<open>
  The value that \<^verbatim>\<open>fmt.Sprintf("%f", x)\<close> prints: \<open>x\<close> rounded to six decimal places,
  ties to even.
\<close>

definition round_half_even :: "real \<Rightarrow> int" where
  "round_half_even r =
     (let f = \<lfloor>r\<rfloor>; d = r - of_int f
      in if d < 1 / 2 then f else if 1 / 2 < d then f + 1
         else if even f then f else f + 1)"

definition Sprintf_f :: "float64 \<Rightarrow> real" where
  "Sprintf_f x = of_int (round_half_even (x * 1000000)) / 1000000"

subsection \<open>Enumerations\<close>

text \<open>
  \<^verbatim>\<open>ItemCategory\<close> and \<^verbatim>\<open>ItemStatus\<close> are Go \<^verbatim>\<open>int\<close> types (64 bits) with named
  constants (\<^verbatim>\<open>iota\<close>); a value read back from the table can be any such integer.
\<close>

type_synonym ItemCategory = "64 word"
type_synonym ItemStatus = "64 word"

definition ItemCategoryUnspecified :: ItemCategory where "ItemCategoryUnspecified = 0"
definition ItemCategoryElectronics :: ItemCategory where "ItemCategoryElectronics = 1"
definition ItemCategoryClothing :: ItemCategory where "ItemCategoryClothing = 2"
definition ItemCategoryBooks :: ItemCategory where "ItemCategoryBooks = 3"
definition ItemCategoryHome :: ItemCategory where "ItemCategoryHome = 4"
definition ItemCategorySports :: ItemCategory where "ItemCategorySports = 5"

definition ItemStatusUnspecified :: ItemStatus where "ItemStatusUnspecified = 0"
definition ItemStatusActive :: ItemStatus where "ItemStatusActive = 1"
definition ItemStatusInactive :: ItemStatus where "ItemStatusInactive = 2"
definition ItemStatusOutOfStock :: ItemStatus where "ItemStatusOutOfStock = 3"
definition ItemStatusDiscontinued :: ItemStatus where "ItemStatusDiscontinued = 4"

subsection \<open>Errors\<close>

text \<open>
  \<open>ErrItemNotFound\<close> is the package's sentinel error. \<open>SdkError\<close> is an error returned
  by the DynamoDB client, \<open>UnmarshalError\<close> one returned by the attribute decoder (with
  the attribute it failed on), \<open>Errorf msg e\<close> is \<^verbatim>\<open>fmt.Errorf(msg + ": %w", e)\<close>, and
  \<open>InsufficientInventory current change\<close> is the error built in \<^verbatim>\<open>UpdateInventory\<close>.
  Go's \<^verbatim>\<open>err == ErrItemNotFound\<close> is equality of these values: a wrapped error is never
  equal to the sentinel.
\<close>

datatype error =
    ErrItemNotFound
  | SdkError string
  | UnmarshalError string
  | Errorf string error
  | InsufficientInventory int32 int32

subsection \<open>Items and attribute values\<close>

record Item =
  PK :: string
  SK :: string
  ItemID :: string
  TenantID :: int64
  Name :: string
  Description :: string
  Price :: float64
  Category :: ItemCategory
  Status :: ItemStatus
  SKU :: string
  InventoryCount :: int32
  Tags :: "string list"
  CreatedAt :: time
  UpdatedAt :: time
  CreatedBy :: string
  UpdatedBy :: string

text \<open>
  \<^verbatim>\<open>Item{}\<close>, the value with every field zero. A \<^verbatim>\<open>nil\<close> slice and an empty slice are
  both the empty list: they have the same length and the same wire encoding.
\<close>

definition Item_zero :: Item where
  "Item_zero =
     \<lparr>PK = '''', SK = '''', ItemID = '''', TenantID = 0, Name = '''', Description = '''',
      Price = 0, Category = 0, Status = 0, SKU = '''', InventoryCount = 0, Tags = [],
      CreatedAt = zero_time, UpdatedAt = zero_time, CreatedBy = '''', UpdatedBy = ''''\<rparr>"

text \<open>
  A DynamoDB attribute value, by what it denotes. \<open>AttrN\<close> carries the number that the
  decimal text of an \<^verbatim>\<open>N\<close> attribute stands for. \<open>AttrS\<close> is an \<^verbatim>\<open>S\<close> attribute with
  its text. \<open>AttrT t\<close> is the \<^verbatim>\<open>S\<close> attribute that holds a time: its text is an
  RFC 3339 timestamp of the instant \<open>t\<close>, and the model keeps the instant in place of
  the text. It is what the encoder writes for a \<^verbatim>\<open>time.Time\<close> and what the store
  writes with \<^verbatim>\<open>Format(time.RFC3339)\<close>; an \<open>AttrS\<close> in a time attribute is text that
  is no timestamp.
\<close>

datatype attr =
    AttrS string
  | AttrN real
  | AttrL "attr list"
  | AttrT time
  | AttrNULL
  | AttrBOOL bool

type_synonym attrmap = "string \<rightharpoonup> attr"

text \<open>The \<^verbatim>\<open>N\<close> attribute whose text is the decimal form of an integer.\<close>

definition AttrN_int :: "int \<Rightarrow> attr" where
  "AttrN_int i = AttrN (of_int i)"

subsection \<open>The attribute encoder and decoder\<close>

text \<open>
  \<^verbatim>\<open>attributevalue.MarshalMap\<close> on an \<^verbatim>\<open>Item\<close>: one attribute for each field under its
  \<^verbatim>\<open>dynamodbav\<close> name; strings as \<^verbatim>\<open>S\<close>, integers and floats as \<^verbatim>\<open>N\<close>, times as
  RFC 3339 text with nanoseconds, the tags as a list of \<^verbatim>\<open>S\<close>, left out when empty
  (\<^verbatim>\<open>omitempty\<close>). It has no failing case on this struct.
\<close>

definition MarshalMap :: "Item \<Rightarrow> error + attrmap" where
  "MarshalMap i =
     (let m = [''PK'' \<mapsto> AttrS (PK i),
               ''SK'' \<mapsto> AttrS (SK i),
               ''ItemID'' \<mapsto> AttrS (ItemID i),
               ''TenantID'' \<mapsto> AttrN_int (sint (TenantID i)),
               ''Name'' \<mapsto> AttrS (Name i),
               ''Description'' \<mapsto> AttrS (Description i),
               ''Price'' \<mapsto> AttrN (Price i),
               ''Category'' \<mapsto> AttrN_int (sint (Category i)),
               ''Status'' \<mapsto> AttrN_int (sint (Status i)),
               ''SKU'' \<mapsto> AttrS (SKU i),
               ''InventoryCount'' \<mapsto> AttrN_int (sint (InventoryCount i)),
               ''CreatedAt'' \<mapsto> AttrT (CreatedAt i),
               ''UpdatedAt'' \<mapsto> AttrT (UpdatedAt i),
               ''CreatedBy'' \<mapsto> AttrS (CreatedBy i),
               ''UpdatedBy'' \<mapsto> AttrS (UpdatedBy i)]
      in Inr (if Tags i = [] then m else m(''Tags'' \<mapsto> AttrL (map AttrS (Tags i)))))"

text \<open>
  The decoder, field by field. A missing attribute and a \<^verbatim>\<open>NULL\<close> leave the field at its
  zero value; an attribute of the wrong type, a number with a fraction or out of the
  field's range, and text that is no timestamp are errors.
\<close>

definition dec_string :: "string \<Rightarrow> attr option \<Rightarrow> error + string" where
  "dec_string f a =
     (case a of
        None \<Rightarrow> Inr ''''
      | Some AttrNULL \<Rightarrow> Inr ''''
      | Some (AttrS s) \<Rightarrow> Inr s
      | Some _ \<Rightarrow> Inl (UnmarshalError f))"

definition dec_int :: "string \<Rightarrow> int \<Rightarrow> int \<Rightarrow> attr option \<Rightarrow> error + int" where
  "dec_int f lo hi a =
     (case a of
        None \<Rightarrow> Inr 0
      | Some AttrNULL \<Rightarrow> Inr 0
      | Some (AttrN r) \<Rightarrow>
          (if of_int \<lfloor>r\<rfloor> = r \<and> lo \<le> \<lfloor>r\<rfloor> \<and> \<lfloor>r\<rfloor> \<le> hi then Inr \<lfloor>r\<rfloor>
           else Inl (UnmarshalError f))
      | Some _ \<Rightarrow> Inl (UnmarshalError f))"

definition dec_int32 :: "string \<Rightarrow> attr option \<Rightarrow> error + int32" where
  "dec_int32 f a = map_sum id word_of_int (dec_int f (- (2 ^ 31)) (2 ^ 31 - 1) a)"

definition dec_int64 :: "string \<Rightarrow> attr option \<Rightarrow> error + int64" where
  "dec_int64 f a = map_sum id word_of_int (dec_int f (- (2 ^ 63)) (2 ^ 63 - 1) a)"

definition dec_float64 :: "string \<Rightarrow> attr option \<Rightarrow> error + float64" where
  "dec_float64 f a =
     (case a of
        None \<Rightarrow> Inr 0
      | Some AttrNULL \<Rightarrow> Inr 0
      | Some (AttrN r) \<Rightarrow> Inr r
      | Some _ \<Rightarrow> Inl (UnmarshalError f))"

definition dec_time :: "string \<Rightarrow> attr option \<Rightarrow> error + time" where
  "dec_time f a =
     (case a of
        None \<Rightarrow> Inr zero_time
      | Some AttrNULL \<Rightarrow> Inr zero_time
      | Some (AttrT t) \<Rightarrow> Inr t
      | Some _ \<Rightarrow> Inl (UnmarshalError f))"

fun dec_elems :: "string \<Rightarrow> attr list \<Rightarrow> error + string list" where
  "dec_elems f [] = Inr []"
| "dec_elems f (a # as) =
     (case dec_string f (Some a) of
        Inl e \<Rightarrow> Inl e
      | Inr s \<Rightarrow> (case dec_elems f as of Inl e \<Rightarrow> Inl e | Inr ss \<Rightarrow> Inr (s # ss)))"

definition dec_strings :: "string \<Rightarrow> attr option \<Rightarrow> error + string list" where
  "dec_strings f a =
     (case a of
        None \<Rightarrow> Inr []
      | Some AttrNULL \<Rightarrow> Inr []
      | Some (AttrL as) \<Rightarrow> dec_elems f as
      | Some _ \<Rightarrow> Inl (UnmarshalError f))"

definition and_then :: "error + 'a \<Rightarrow> ('a \<Rightarrow> error + 'b) \<Rightarrow> error + 'b" where
  "and_then r k = (case r of Inl e \<Rightarrow> Inl e | Inr x \<Rightarrow> k x)"

definition UnmarshalMap :: "attrmap \<Rightarrow> error + Item" where
  "UnmarshalMap m =
     and_then (dec_string ''PK'' (m ''PK'')) (\<lambda>pk.
     and_then (dec_string ''SK'' (m ''SK'')) (\<lambda>sk.
     and_then (dec_string ''ItemID'' (m ''ItemID'')) (\<lambda>itemID.
     and_then (dec_int64 ''TenantID'' (m ''TenantID'')) (\<lambda>tenantID.
     and_then (dec_string ''Name'' (m ''Name'')) (\<lambda>name.
     and_then (dec_string ''Description'' (m ''Description'')) (\<lambda>description.
     and_then (dec_float64 ''Price'' (m ''Price'')) (\<lambda>price.
     and_then (dec_int64 ''Category'' (m ''Category'')) (\<lambda>category.
     and_then (dec_int64 ''Status'' (m ''Status'')) (\<lambda>status.
     and_then (dec_string ''SKU'' (m ''SKU'')) (\<lambda>sku.
     and_then (dec_int32 ''InventoryCount'' (m ''InventoryCount'')) (\<lambda>inventoryCount.
     and_then (dec_strings ''Tags'' (m ''Tags'')) (\<lambda>tags.
     and_then (dec_time ''CreatedAt'' (m ''CreatedAt'')) (\<lambda>createdAt.
     and_then (dec_time ''UpdatedAt'' (m ''UpdatedAt'')) (\<lambda>updatedAt.
     and_then (dec_string ''CreatedBy'' (m ''CreatedBy'')) (\<lambda>createdBy.
     and_then (dec_string ''UpdatedBy'' (m ''UpdatedBy'')) (\<lambda>updatedBy.
       Inr \<lparr>PK = pk, SK = sk, ItemID = itemID, TenantID = tenantID, Name = name,
            Description = description, Price = price, Category = category,
            Status = status, SKU = sku, InventoryCount = inventoryCount, Tags = tags,
            CreatedAt = createdAt, UpdatedAt = updatedAt, CreatedBy = createdBy,
            UpdatedBy = updatedBy\<rparr>))))))))))))))))"

section \<open>The backing store client\<close>

text \<open>
  The requests and responses of the DynamoDB client, with the fields this service sets
  and reads. The client itself is a collaborator: a record of its four operations over
  a state \<open>'db\<close> of the backing store. Each operation returns its result, or the
  client's error, and the new state.
\<close>

record PutItemInput =
  put_TableName :: string
  put_Item :: attrmap

record GetItemInput =
  get_TableName :: string
  get_Key :: attrmap

record GetItemOutput =
  got_Item :: "attrmap option"

record UpdateItemInput =
  upd_TableName :: string
  upd_Key :: attrmap
  upd_UpdateExpression :: string
  upd_ExpressionAttributeNames :: "string \<rightharpoonup> string"
  upd_ExpressionAttributeValues :: attrmap

record QueryInput =
  qry_TableName :: string
  qry_KeyConditionExpression :: string
  qry_ExpressionAttributeValues :: attrmap
  qry_Limit :: "int32 option"
  qry_ExclusiveStartKey :: "attrmap option"

record QueryOutput =
  res_Items :: "attrmap list"
  res_LastEvaluatedKey :: "attrmap option"

record 'db client =
  client_PutItem :: "PutItemInput \<Rightarrow> 'db \<Rightarrow> error option \<times> 'db"
  client_GetItem :: "GetItemInput \<Rightarrow> 'db \<Rightarrow> (error + GetItemOutput) \<times> 'db"
  client_UpdateItem :: "UpdateItemInput \<Rightarrow> 'db \<Rightarrow> error option \<times> 'db"
  client_Query :: "QueryInput \<Rightarrow> 'db \<Rightarrow> (error + QueryOutput) \<times> 'db"

section \<open>The item store\<close>

record 'db DynamoStore =
  client :: "'db client"
  tableName :: string

text \<open>The composite key of an item: \<^verbatim>\<open>TENANT#{tenant_id}\<close> and \<^verbatim>\<open>ITEM#{item_id}\<close>.\<close>

definition item_key :: "int64 \<Rightarrow> string \<Rightarrow> attrmap" where
  "item_key tenantID itemID =
     [''PK'' \<mapsto> AttrS (''TENANT#'' @ Sprintf_d (sint tenantID)),
      ''SK'' \<mapsto> AttrS (''ITEM#'' @ itemID)]"

text \<open>
  \<^verbatim>\<open>CreateItem\<close>. The arguments \<open>itemID\<close> and \<open>now\<close> are what \<^verbatim>\<open>uuid.New().String()\<close>
  and \<^verbatim>\<open>time.Now()\<close> return in this call.
\<close>

definition CreateItem ::
  "'db DynamoStore \<Rightarrow> string \<Rightarrow> time \<Rightarrow> int64 \<Rightarrow> string \<Rightarrow> string \<Rightarrow> float64 \<Rightarrow> ItemCategory
     \<Rightarrow> string \<Rightarrow> int32 \<Rightarrow> string list \<Rightarrow> string \<Rightarrow> 'db \<Rightarrow> (Item \<times> error option) \<times> 'db" where
  "CreateItem s itemID now tenantID name description price category sku inventoryCount
       tags createdBy d =
     (let item = \<lparr>PK = ''TENANT#'' @ Sprintf_d (sint tenantID),
                  SK = ''ITEM#'' @ itemID,
                  ItemID = itemID,
                  TenantID = tenantID,
                  Name = name,
                  Description = description,
                  Price = price,
                  Category = category,
                  Status = ItemStatusActive,
                  SKU = sku,
                  InventoryCount = inventoryCount,
                  Tags = tags,
                  CreatedAt = now,
                  UpdatedAt = now,
                  CreatedBy = createdBy,
                  UpdatedBy = createdBy\<rparr>
      in case MarshalMap item of
           Inl err \<Rightarrow> ((Item_zero, Some (Errorf ''failed to marshal item'' err)), d)
         | Inr av \<Rightarrow>
             (case client_PutItem (client s)
                     \<lparr>put_TableName = tableName s, put_Item = av\<rparr> d of
                (Some err, d') \<Rightarrow> ((Item_zero, Some (Errorf ''failed to put item'' err)), d')
              | (None, d') \<Rightarrow> ((item, None), d')))"

definition GetItem ::
  "'db DynamoStore \<Rightarrow> int64 \<Rightarrow> string \<Rightarrow> 'db \<Rightarrow> (Item \<times> error option) \<times> 'db" where
  "GetItem s tenantID itemID d =
     (case client_GetItem (client s)
             \<lparr>get_TableName = tableName s, get_Key = item_key tenantID itemID\<rparr> d of
        (Inl err, d') \<Rightarrow> ((Item_zero, Some (Errorf ''failed to get item'' err)), d')
      | (Inr result, d') \<Rightarrow>
          (case got_Item result of
             None \<Rightarrow> ((Item_zero, Some ErrItemNotFound), d')
           | Some av \<Rightarrow>
               (case UnmarshalMap av of
                  Inl err \<Rightarrow> ((Item_zero, Some (Errorf ''failed to unmarshal item'' err)), d')
                | Inr item \<Rightarrow> ((item, None), d'))))"

text \<open>\<^verbatim>\<open>UpdateItem\<close>: every mutable attribute is set, then the item is read back.\<close>

definition UpdateItem ::
  "'db DynamoStore \<Rightarrow> time \<Rightarrow> int64 \<Rightarrow> string \<Rightarrow> string \<Rightarrow> string \<Rightarrow> float64 \<Rightarrow> ItemCategory
     \<Rightarrow> ItemStatus \<Rightarrow> string \<Rightarrow> int32 \<Rightarrow> string list \<Rightarrow> string \<Rightarrow> 'db
     \<Rightarrow> (Item \<times> error option) \<times> 'db" where
  "UpdateItem s now tenantID itemID name description price category status sku
       inventoryCount tags updatedBy d =
     (let updateExpr = ''SET #name = :name, #desc = :desc, #price = :price, #category = :category, #status = :status, #sku = :sku, #inventory = :inventory, #tags = :tags, #updatedAt = :updatedAt, #updatedBy = :updatedBy'';
          exprAttrNames = [''#name'' \<mapsto> ''Name'',
                           ''#desc'' \<mapsto> ''Description'',
                           ''#price'' \<mapsto> ''Price'',
                           ''#category'' \<mapsto> ''Category'',
                           ''#status'' \<mapsto> ''Status'',
                           ''#sku'' \<mapsto> ''SKU'',
                           ''#inventory'' \<mapsto> ''InventoryCount'',
                           ''#tags'' \<mapsto> ''Tags'',
                           ''#updatedAt'' \<mapsto> ''UpdatedAt'',
                           ''#updatedBy'' \<mapsto> ''UpdatedBy''];
          exprAttrValues = ['':name'' \<mapsto> AttrS name,
                            '':desc'' \<mapsto> AttrS description,
                            '':price'' \<mapsto> AttrN (Sprintf_f price),
                            '':category'' \<mapsto> AttrN_int (sint category),
                            '':status'' \<mapsto> AttrN_int (sint status),
                            '':sku'' \<mapsto> AttrS sku,
                            '':inventory'' \<mapsto> AttrN_int (sint inventoryCount),
                            '':updatedAt'' \<mapsto> AttrT (Format_RFC3339 now),
                            '':updatedBy'' \<mapsto> AttrS updatedBy];
          exprAttrValues =
            (if length tags > 0 then exprAttrValues('':tags'' \<mapsto> AttrL (map AttrS tags))
             else exprAttrValues('':tags'' \<mapsto> AttrL []))
      in case client_UpdateItem (client s)
              \<lparr>upd_TableName = tableName s,
               upd_Key = item_key tenantID itemID,
               upd_UpdateExpression = updateExpr,
               upd_ExpressionAttributeNames = exprAttrNames,
               upd_ExpressionAttributeValues = exprAttrValues\<rparr> d of
           (Some err, d') \<Rightarrow> ((Item_zero, Some (Errorf ''failed to update item'' err)), d')
         | (None, d') \<Rightarrow> GetItem s tenantID itemID d')"

text \<open>\<^verbatim>\<open>DeleteItem\<close>: the soft delete. \<open>now\<close> is the reading of \<^verbatim>\<open>time.Now()\<close>.\<close>

definition DeleteItem ::
  "'db DynamoStore \<Rightarrow> time \<Rightarrow> int64 \<Rightarrow> string \<Rightarrow> 'db \<Rightarrow> error option \<times> 'db" where
  "DeleteItem s now tenantID itemID d =
     (case client_UpdateItem (client s)
             \<lparr>upd_TableName = tableName s,
              upd_Key = item_key tenantID itemID,
              upd_UpdateExpression = ''SET #status = :status, #updatedAt = :updatedAt'',
              upd_ExpressionAttributeNames =
                [''#status'' \<mapsto> ''Status'', ''#updatedAt'' \<mapsto> ''UpdatedAt''],
              upd_ExpressionAttributeValues =
                ['':status'' \<mapsto> AttrN_int (sint ItemStatusDiscontinued),
                 '':updatedAt'' \<mapsto> AttrT (Format_RFC3339 now)]\<rparr> d of
        (Some err, d') \<Rightarrow> (Some (Errorf ''failed to delete item'' err), d')
      | (None, d') \<Rightarrow> (None, d'))"

text \<open>
  \<^verbatim>\<open>ListItems\<close>. The query input is built first; the loop over the returned page
  skips a record that does not decode and a record that a filter excludes, and
  appends the others in order.
\<close>

definition ListItems_input ::
  "'db DynamoStore \<Rightarrow> int64 \<Rightarrow> int32 \<Rightarrow> string \<Rightarrow> QueryInput" where
  "ListItems_input s tenantID pageSize pageToken =
     (let input = \<lparr>qry_TableName = tableName s,
                   qry_KeyConditionExpression = ''PK = :pk AND begins_with(SK, :sk_prefix)'',
                   qry_ExpressionAttributeValues =
                     ['':pk'' \<mapsto> AttrS (''TENANT#'' @ Sprintf_d (sint tenantID)),
                      '':sk_prefix'' \<mapsto> AttrS ''ITEM#''],
                   qry_Limit = Some pageSize,
                   qry_ExclusiveStartKey = None\<rparr>
      in if pageToken \<noteq> ''''
         then input\<lparr>qry_ExclusiveStartKey :=
                      Some [''PK'' \<mapsto> AttrS (''TENANT#'' @ Sprintf_d (sint tenantID)),
                            ''SK'' \<mapsto> AttrS pageToken]\<rparr>
         else input)"

fun ListItems_loop ::
  "ItemCategory \<Rightarrow> ItemStatus \<Rightarrow> attrmap list \<Rightarrow> Item list \<Rightarrow> Item list" where
  "ListItems_loop category status [] items = items"
| "ListItems_loop category status (item # rest) items =
     (case UnmarshalMap item of
        Inl err \<Rightarrow> ListItems_loop category status rest items
      | Inr i \<Rightarrow>
          if category \<noteq> ItemCategoryUnspecified \<and> Category i \<noteq> category
          then ListItems_loop category status rest items
          else if status \<noteq> ItemStatusUnspecified \<and> Status i \<noteq> status
          then ListItems_loop category status rest items
          else ListItems_loop category status rest (items @ [i]))"

definition ListItems_token :: "attrmap option \<Rightarrow> string" where
  "ListItems_token lastEvaluatedKey =
     (case lastEvaluatedKey of
        None \<Rightarrow> ''''
      | Some k \<Rightarrow>
          (case k ''SK'' of
             None \<Rightarrow> ''''
           | Some sk \<Rightarrow> (case sk of AttrS skValue \<Rightarrow> skValue | _ \<Rightarrow> '''')))"

definition ListItems ::
  "'db DynamoStore \<Rightarrow> int64 \<Rightarrow> ItemCategory \<Rightarrow> ItemStatus \<Rightarrow> string \<Rightarrow> int32 \<Rightarrow> string \<Rightarrow> 'db
     \<Rightarrow> (Item list \<times> string \<times> int32 \<times> error option) \<times> 'db" where
  "ListItems s tenantID category status searchQuery pageSize pageToken d =
     (case client_Query (client s) (ListItems_input s tenantID pageSize pageToken) d of
        (Inl err, d') \<Rightarrow> (([], '''', 0, Some (Errorf ''failed to list items'' err)), d')
      | (Inr result, d') \<Rightarrow>
          (let items = ListItems_loop category status (res_Items result) [];
               nextPageToken = ListItems_token (res_LastEvaluatedKey result)
           in ((items, nextPageToken, word_of_nat (length items), None), d')))"

text \<open>
  \<^verbatim>\<open>UpdateInventory\<close>: read, add in \<^verbatim>\<open>int32\<close> (the sum wraps around), refuse a negative
  result, write, read back. \<open>now\<close> is the reading of \<^verbatim>\<open>time.Now()\<close> before the write.
\<close>

definition UpdateInventory ::
  "'db DynamoStore \<Rightarrow> time \<Rightarrow> int64 \<Rightarrow> string \<Rightarrow> int32 \<Rightarrow> string \<Rightarrow> string \<Rightarrow> 'db
     \<Rightarrow> (Item \<times> int32 \<times> error option) \<times> 'db" where
  "UpdateInventory s now tenantID itemID quantityChange reason updatedBy d =
     (case GetItem s tenantID itemID d of
        ((currentItem, Some err), d1) \<Rightarrow> ((Item_zero, 0, Some err), d1)
      | ((currentItem, None), d1) \<Rightarrow>
          (let previousCount = InventoryCount currentItem;
               newCount = previousCount + quantityChange
           in if sint newCount < 0
              then ((Item_zero, previousCount,
                     Some (InsufficientInventory previousCount quantityChange)), d1)
              else
                (case client_UpdateItem (client s)
                        \<lparr>upd_TableName = tableName s,
                         upd_Key = item_key tenantID itemID,
                         upd_UpdateExpression = ''SET #inventory = :inventory, #updatedAt = :updatedAt, #updatedBy = :updatedBy'',
                         upd_ExpressionAttributeNames =
                           [''#inventory'' \<mapsto> ''InventoryCount'',
                            ''#updatedAt'' \<mapsto> ''UpdatedAt'',
                            ''#updatedBy'' \<mapsto> ''UpdatedBy''],
                         upd_ExpressionAttributeValues =
                           ['':inventory'' \<mapsto> AttrN_int (sint newCount),
                            '':updatedAt'' \<mapsto> AttrT (Format_RFC3339 now),
                            '':updatedBy'' \<mapsto> AttrS updatedBy]\<rparr> d1 of
                   (Some err, d2) \<Rightarrow>
                     ((Item_zero, previousCount,
                       Some (Errorf ''failed to update inventory'' err)), d2)
                 | (None, d2) \<Rightarrow>
                     (case GetItem s tenantID itemID d2 of
                        ((updatedItem, Some err), d3) \<Rightarrow>
                          ((Item_zero, previousCount, Some err), d3)
                      | ((updatedItem, None), d3) \<Rightarrow>
                          ((updatedItem, previousCount, None), d3)))))"

section \<open>A reference model of the backing store\<close>

text \<open>
  An in-memory table service with the behaviour of DynamoDB that this service relies
  on: items are attribute maps stored under their composite key (partition key \<^verbatim>\<open>PK\<close>,
  sort key \<^verbatim>\<open>SK\<close>, both strings); a put replaces the item at its key; an update with a
  \<^verbatim>\<open>SET\<close> expression changes the named attributes of the item at the key and creates
  the item when there is none; a query reads one partition in the order of the sort
  key. Reads see every earlier write (the model has one copy of the data), and no
  operation fails for reasons of its own: a failing backing store is a different client.
\<close>

type_synonym table = "((string \<times> string) \<times> attrmap) list"
type_synonym dynamodb = "string \<Rightarrow> table"

definition ValidationException :: error where
  "ValidationException = SdkError ''ValidationException''"

definition key_of :: "attrmap \<Rightarrow> (string \<times> string) option" where
  "key_of m =
     (case (m ''PK'', m ''SK'') of
        (Some (AttrS pk), Some (AttrS sk)) \<Rightarrow> Some (pk, sk)
      | _ \<Rightarrow> None)"

definition key_attrs :: "string \<times> string \<Rightarrow> attrmap" where
  "key_attrs k = [''PK'' \<mapsto> AttrS (fst k), ''SK'' \<mapsto> AttrS (snd k)]"

definition dynamo_PutItem :: "PutItemInput \<Rightarrow> dynamodb \<Rightarrow> error option \<times> dynamodb" where
  "dynamo_PutItem i d =
     (case key_of (put_Item i) of
        None \<Rightarrow> (Some ValidationException, d)
      | Some k \<Rightarrow>
          (None, d(put_TableName i := AList.update k (put_Item i) (d (put_TableName i)))))"

definition dynamo_GetItem ::
  "GetItemInput \<Rightarrow> dynamodb \<Rightarrow> (error + GetItemOutput) \<times> dynamodb" where
  "dynamo_GetItem i d =
     (case key_of (get_Key i) of
        None \<Rightarrow> (Inl ValidationException, d)
      | Some k \<Rightarrow> (Inr \<lparr>got_Item = map_of (d (get_TableName i)) k\<rparr>, d))"

text \<open>
  The update expressions of this service have the form
  \<^verbatim>\<open>SET #a = :x, #b = :y, ...\<close>; the model reads this form and rejects any other text.
\<close>

fun split_char :: "char \<Rightarrow> string \<Rightarrow> string list" where
  "split_char c [] = ['''']"
| "split_char c (x # xs) =
     (if x = c then [] # split_char c xs
      else (case split_char c xs of [] \<Rightarrow> [x] # [] | y # ys \<Rightarrow> (x # y) # ys))"

definition trim :: "string \<Rightarrow> string" where
  "trim s = rev (dropWhile (\<lambda>c. c = CHR '' '') (rev (dropWhile (\<lambda>c. c = CHR '' '') s)))"

definition parse_assignment :: "string \<Rightarrow> (string \<times> string) option" where
  "parse_assignment s =
     (case split_char (CHR ''='') s of
        [l, r] \<Rightarrow> Some (trim l, trim r)
      | _ \<Rightarrow> None)"

definition parse_SET :: "string \<Rightarrow> (string \<times> string) list option" where
  "parse_SET e =
     (if take 4 e = ''SET '' then those (map parse_assignment (split_char (CHR '','') (drop 4 e)))
      else None)"

definition resolve ::
  "(string \<rightharpoonup> string) \<Rightarrow> attrmap \<Rightarrow> string \<times> string \<Rightarrow> (string \<times> attr) option" where
  "resolve names vals c =
     (case (names (fst c), vals (snd c)) of
        (Some a, Some x) \<Rightarrow> Some (a, x)
      | _ \<Rightarrow> None)"

definition assign :: "(string \<times> attr) list \<Rightarrow> attrmap \<Rightarrow> attrmap" where
  "assign as m = fold (\<lambda>(a, x) m. m(a \<mapsto> x)) as m"

definition dynamo_UpdateItem :: "UpdateItemInput \<Rightarrow> dynamodb \<Rightarrow> error option \<times> dynamodb" where
  "dynamo_UpdateItem i d =
     (case key_of (upd_Key i) of
        None \<Rightarrow> (Some ValidationException, d)
      | Some k \<Rightarrow>
          (case parse_SET (upd_UpdateExpression i) of
             None \<Rightarrow> (Some ValidationException, d)
           | Some cs \<Rightarrow>
               (case those (map (resolve (upd_ExpressionAttributeNames i)
                                         (upd_ExpressionAttributeValues i)) cs) of
                  None \<Rightarrow> (Some ValidationException, d)
                | Some as \<Rightarrow>
                    if list_ex (\<lambda>(a, x). a = ''PK'' \<or> a = ''SK'') as
                    then (Some ValidationException, d)
                    else
                      (let t = d (upd_TableName i);
                           old = (case map_of t k of None \<Rightarrow> key_attrs k | Some m \<Rightarrow> m)
                       in (None, d(upd_TableName i := AList.update k (assign as old) t))))))"

text \<open>
  The query of this service: one partition, the sort keys with a given prefix, after
  the exclusive start key when there is one, at most \<^verbatim>\<open>Limit\<close> items, in ascending
  order of the sort key (bytewise). The last evaluated key is reported when the limit
  stopped the query.
\<close>

definition begins_with :: "string \<Rightarrow> string \<Rightarrow> bool" where
  "begins_with s p = (take (length p) s = p)"

definition query_page ::
  "table \<Rightarrow> string \<Rightarrow> string \<Rightarrow> string option \<Rightarrow> nat option \<Rightarrow> QueryOutput" where
  "query_page t pk pre start limit =
     (let matching =
            sort_key (\<lambda>(k, m). snd k)
              (filter (\<lambda>(k, m). fst k = pk \<and> begins_with (snd k) pre \<and>
                                (case start of None \<Rightarrow> True | Some s \<Rightarrow> s < snd k)) t);
          page = (case limit of None \<Rightarrow> matching | Some n \<Rightarrow> take n matching);
          stopped = (case limit of None \<Rightarrow> False | Some n \<Rightarrow> n \<le> length matching)
      in \<lparr>res_Items = map snd page,
          res_LastEvaluatedKey =
            (if stopped
             then (case rev page of [] \<Rightarrow> None | (k, m) # _ \<Rightarrow> Some (key_attrs k))
             else None)\<rparr>)"

definition dynamo_Query :: "QueryInput \<Rightarrow> dynamodb \<Rightarrow> (error + QueryOutput) \<times> dynamodb" where
  "dynamo_Query i d =
     (if qry_KeyConditionExpression i \<noteq> ''PK = :pk AND begins_with(SK, :sk_prefix)''
      then (Inl ValidationException, d)
      else
        (case (qry_ExpressionAttributeValues i '':pk'',
               qry_ExpressionAttributeValues i '':sk_prefix'') of
           (Some (AttrS pk), Some (AttrS pre)) \<Rightarrow>
             (if (case qry_Limit i of None \<Rightarrow> False | Some l \<Rightarrow> sint l \<le> 0)
              then (Inl ValidationException, d)
              else
                (let limit = map_option (\<lambda>l. nat (sint l)) (qry_Limit i);
                     t = d (qry_TableName i)
                 in case qry_ExclusiveStartKey i of
                      None \<Rightarrow> (Inr (query_page t pk pre None limit), d)
                    | Some km \<Rightarrow>
                        (case key_of km of
                           None \<Rightarrow> (Inl ValidationException, d)
                         | Some k \<Rightarrow>
                             if fst k \<noteq> pk then (Inl ValidationException, d)
                             else (Inr (query_page t pk pre (Some (snd k)) limit), d))))
         | _ \<Rightarrow> (Inl ValidationException, d)))"

definition dynamo :: "dynamodb client" where
  "dynamo =
     \<lparr>client_PutItem = dynamo_PutItem,
      client_GetItem = dynamo_GetItem,
      client_UpdateItem = dynamo_UpdateItem,
      client_Query = dynamo_Query\<rparr>"

text \<open>A backing store whose writes fail (throttled, unreachable, access denied).\<close>

definition dynamo_failing_writes :: "dynamodb client" where
  "dynamo_failing_writes =
     dynamo\<lparr>client_PutItem := \<lambda>i d. (Some (SdkError ''RequestError''), d),
            client_UpdateItem := \<lambda>i d. (Some (SdkError ''RequestError''), d)\<rparr>"

section \<open>The request handler\<close>

subsection \<open>Wire messages\<close>

text \<open>
  Modelled from the spec: the generated message types of package \<^verbatim>\<open>proto/go\<close> are
  not among the sources. The messages have the fields that the handler reads and
  writes, with the types of the store arguments they are passed to; the enumerations
  have the constants that the conversion functions name, and any other number on the
  wire is the constructor \<open>other\<close>.
\<close>

datatype pb_ItemCategory =
    ItemCategory_ITEM_CATEGORY_UNSPECIFIED
  | ItemCategory_ITEM_CATEGORY_ELECTRONICS
  | ItemCategory_ITEM_CATEGORY_CLOTHING
  | ItemCategory_ITEM_CATEGORY_BOOKS
  | ItemCategory_ITEM_CATEGORY_HOME
  | ItemCategory_ITEM_CATEGORY_SPORTS
  | ItemCategory_other int32

datatype pb_ItemStatus =
    ItemStatus_ITEM_STATUS_UNSPECIFIED
  | ItemStatus_ITEM_STATUS_ACTIVE
  | ItemStatus_ITEM_STATUS_INACTIVE
  | ItemStatus_ITEM_STATUS_OUT_OF_STOCK
  | ItemStatus_ITEM_STATUS_DISCONTINUED
  | ItemStatus_other int32

record pb_Item =
  pb_Id :: string
  pb_TenantId :: int64
  pb_Name :: string
  pb_Description :: string
  pb_Price :: float64
  pb_Category :: pb_ItemCategory
  pb_Status :: pb_ItemStatus
  pb_Sku :: string
  pb_InventoryCount :: int32
  pb_Tags :: "string list"
  pb_CreatedAt :: time
  pb_UpdatedAt :: time
  pb_CreatedBy :: string
  pb_UpdatedBy :: string

record CreateItemRequest =
  cr_TenantId :: int64
  cr_Name :: string
  cr_Description :: string
  cr_Price :: float64
  cr_Category :: pb_ItemCategory
  cr_Sku :: string
  cr_InventoryCount :: int32
  cr_Tags :: "string list"
  cr_CreatedBy :: string

record GetItemRequest =
  gr_TenantId :: int64
  gr_Id :: string

record UpdateItemRequest =
  ur_TenantId :: int64
  ur_Id :: string
  ur_Name :: string
  ur_Description :: string
  ur_Price :: float64
  ur_Category :: pb_ItemCategory
  ur_Status :: pb_ItemStatus
  ur_Sku :: string
  ur_InventoryCount :: int32
  ur_Tags :: "string list"
  ur_UpdatedBy :: string

record DeleteItemRequest =
  dr_TenantId :: int64
  dr_Id :: string

record ListItemsRequest =
  lr_TenantId :: int64
  lr_Category :: pb_ItemCategory
  lr_Status :: pb_ItemStatus
  lr_SearchQuery :: string
  lr_PageSize :: int32
  lr_PageToken :: string

record UpdateInventoryRequest =
  ir_TenantId :: int64
  ir_ItemId :: string
  ir_QuantityChange :: int32
  ir_Reason :: string
  ir_UpdatedBy :: string

datatype CreateItemResponse = CreateItemResponse (cresp_Item: pb_Item)
datatype GetItemResponse = GetItemResponse (gresp_Item: pb_Item)
datatype UpdateItemResponse = UpdateItemResponse (uresp_Item: pb_Item)
datatype DeleteItemResponse = DeleteItemResponse (dresp_Success: bool)

record ListItemsResponse =
  lresp_Items :: "pb_Item list"
  lresp_NextPageToken :: string
  lresp_TotalCount :: int32

record UpdateInventoryResponse =
  iresp_Item :: pb_Item
  iresp_PreviousCount :: int32

text \<open>
  \<^verbatim>\<open>status.Error(code, msg)\<close>. A handler returns either this error (and no response)
  or a response (and no error).
\<close>

datatype code = InvalidArgument | NotFound | Internal

datatype rpc_error = Status_Error code string

subsection \<open>The store interface\<close>

text \<open>
  \<^verbatim>\<open>data.StoreInterface\<close>: the six operations, over a state \<open>'s\<close> that the
  implementation reads and changes.
\<close>

record 's StoreInterface =
  store_CreateItem ::
    "int64 \<Rightarrow> string \<Rightarrow> string \<Rightarrow> float64 \<Rightarrow> ItemCategory \<Rightarrow> string \<Rightarrow> int32 \<Rightarrow> string list
       \<Rightarrow> string \<Rightarrow> 's \<Rightarrow> (Item \<times> error option) \<times> 's"
  store_GetItem :: "int64 \<Rightarrow> string \<Rightarrow> 's \<Rightarrow> (Item \<times> error option) \<times> 's"
  store_UpdateItem ::
    "int64 \<Rightarrow> string \<Rightarrow> string \<Rightarrow> string \<Rightarrow> float64 \<Rightarrow> ItemCategory \<Rightarrow> ItemStatus \<Rightarrow> string
       \<Rightarrow> int32 \<Rightarrow> string list \<Rightarrow> string \<Rightarrow> 's \<Rightarrow> (Item \<times> error option) \<times> 's"
  store_DeleteItem :: "int64 \<Rightarrow> string \<Rightarrow> 's \<Rightarrow> error option \<times> 's"
  store_ListItems ::
    "int64 \<Rightarrow> ItemCategory \<Rightarrow> ItemStatus \<Rightarrow> string \<Rightarrow> int32 \<Rightarrow> string \<Rightarrow> 's
       \<Rightarrow> (Item list \<times> string \<times> int32 \<times> error option) \<times> 's"
  store_UpdateInventory ::
    "int64 \<Rightarrow> string \<Rightarrow> int32 \<Rightarrow> string \<Rightarrow> string \<Rightarrow> 's
       \<Rightarrow> (Item \<times> int32 \<times> error option) \<times> 's"

text \<open>
  The DynamoDB store as an implementation of the interface, for one request: \<open>itemID\<close>
  and \<open>now\<close> are the identifier and the clock reading that the store obtains while it
  serves the request.
\<close>

definition DynamoStore_interface ::
  "'db DynamoStore \<Rightarrow> string \<Rightarrow> time \<Rightarrow> 'db StoreInterface" where
  "DynamoStore_interface s itemID now =
     \<lparr>store_CreateItem = CreateItem s itemID now,
      store_GetItem = GetItem s,
      store_UpdateItem = UpdateItem s now,
      store_DeleteItem = DeleteItem s now,
      store_ListItems = ListItems s,
      store_UpdateInventory = UpdateInventory s now\<rparr>"

subsection \<open>Conversions\<close>

fun protoToDataCategory :: "pb_ItemCategory \<Rightarrow> ItemCategory" where
  "protoToDataCategory ItemCategory_ITEM_CATEGORY_ELECTRONICS = ItemCategoryElectronics"
| "protoToDataCategory ItemCategory_ITEM_CATEGORY_CLOTHING = ItemCategoryClothing"
| "protoToDataCategory ItemCategory_ITEM_CATEGORY_BOOKS = ItemCategoryBooks"
| "protoToDataCategory ItemCategory_ITEM_CATEGORY_HOME = ItemCategoryHome"
| "protoToDataCategory ItemCategory_ITEM_CATEGORY_SPORTS = ItemCategorySports"
| "protoToDataCategory _ = ItemCategoryUnspecified"

definition dataToProtoCategory :: "ItemCategory \<Rightarrow> pb_ItemCategory" where
  "dataToProtoCategory category =
     (if category = ItemCategoryElectronics then ItemCategory_ITEM_CATEGORY_ELECTRONICS
      else if category = ItemCategoryClothing then ItemCategory_ITEM_CATEGORY_CLOTHING
      else if category = ItemCategoryBooks then ItemCategory_ITEM_CATEGORY_BOOKS
      else if category = ItemCategoryHome then ItemCategory_ITEM_CATEGORY_HOME
      else if category = ItemCategorySports then ItemCategory_ITEM_CATEGORY_SPORTS
      else ItemCategory_ITEM_CATEGORY_UNSPECIFIED)"

fun protoToDataStatus :: "pb_ItemStatus \<Rightarrow> ItemStatus" where
  "protoToDataStatus ItemStatus_ITEM_STATUS_ACTIVE = ItemStatusActive"
| "protoToDataStatus ItemStatus_ITEM_STATUS_INACTIVE = ItemStatusInactive"
| "protoToDataStatus ItemStatus_ITEM_STATUS_OUT_OF_STOCK = ItemStatusOutOfStock"
| "protoToDataStatus ItemStatus_ITEM_STATUS_DISCONTINUED = ItemStatusDiscontinued"
| "protoToDataStatus _ = ItemStatusUnspecified"

definition dataToProtoStatus :: "ItemStatus \<Rightarrow> pb_ItemStatus" where
  "dataToProtoStatus status =
     (if status = ItemStatusActive then ItemStatus_ITEM_STATUS_ACTIVE
      else if status = ItemStatusInactive then ItemStatus_ITEM_STATUS_INACTIVE
      else if status = ItemStatusOutOfStock then ItemStatus_ITEM_STATUS_OUT_OF_STOCK
      else if status = ItemStatusDiscontinued then ItemStatus_ITEM_STATUS_DISCONTINUED
      else ItemStatus_ITEM_STATUS_UNSPECIFIED)"

definition dataToProtoItem :: "Item \<Rightarrow> pb_Item" where
  "dataToProtoItem item =
     \<lparr>pb_Id = ItemID item,
      pb_TenantId = TenantID item,
      pb_Name = Name item,
      pb_Description = Description item,
      pb_Price = Price item,
      pb_Category = dataToProtoCategory (Category item),
      pb_Status = dataToProtoStatus (Status item),
      pb_Sku = SKU item,
      pb_InventoryCount = InventoryCount item,
      pb_Tags = Tags item,
      pb_CreatedAt = CreatedAt item,
      pb_UpdatedAt = UpdatedAt item,
      pb_CreatedBy = CreatedBy item,
      pb_UpdatedBy = UpdatedBy item\<rparr>"

subsection \<open>The handlers\<close>

text \<open>
  The methods of \<^verbatim>\<open>StoreServiceServer\<close>, with the prefix \<open>Server\<close> to tell them from
  the functions of the store of the same names.
\<close>

record 's StoreServiceServer =
  store :: "'s StoreInterface"

definition Server_CreateItem ::
  "'s StoreServiceServer \<Rightarrow> CreateItemRequest \<Rightarrow> 's \<Rightarrow> (rpc_error + CreateItemResponse) \<times> 's" where
  "Server_CreateItem s req st =
     (if sint (cr_TenantId req) \<le> 0
      then (Inl (Status_Error InvalidArgument ''tenant_id must be positive''), st)
      else if cr_Name req = ''''
      then (Inl (Status_Error InvalidArgument ''name is required''), st)
      else if cr_Price req < 0
      then (Inl (Status_Error InvalidArgument ''price cannot be negative''), st)
      else
        (let category = protoToDataCategory (cr_Category req)
         in case store_CreateItem (store s) (cr_TenantId req) (cr_Name req)
                   (cr_Description req) (cr_Price req) category (cr_Sku req)
                   (cr_InventoryCount req) (cr_Tags req) (cr_CreatedBy req) st of
              ((item, Some err), st') \<Rightarrow>
                (Inl (Status_Error Internal ''failed to create item''), st')
            | ((item, None), st') \<Rightarrow>
                (Inr (CreateItemResponse (dataToProtoItem item)), st')))"

definition Server_GetItem ::
  "'s StoreServiceServer \<Rightarrow> GetItemRequest \<Rightarrow> 's \<Rightarrow> (rpc_error + GetItemResponse) \<times> 's" where
  "Server_GetItem s req st =
     (if sint (gr_TenantId req) \<le> 0
      then (Inl (Status_Error InvalidArgument ''tenant_id must be positive''), st)
      else if gr_Id req = ''''
      then (Inl (Status_Error InvalidArgument ''id is required''), st)
      else
        (case store_GetItem (store s) (gr_TenantId req) (gr_Id req) st of
           ((item, Some err), st') \<Rightarrow>
             (if err = ErrItemNotFound
              then (Inl (Status_Error NotFound ''item not found''), st')
              else (Inl (Status_Error Internal ''failed to get item''), st'))
         | ((item, None), st') \<Rightarrow> (Inr (GetItemResponse (dataToProtoItem item)), st')))"

definition Server_UpdateItem ::
  "'s StoreServiceServer \<Rightarrow> UpdateItemRequest \<Rightarrow> 's \<Rightarrow> (rpc_error + UpdateItemResponse) \<times> 's" where
  "Server_UpdateItem s req st =
     (if sint (ur_TenantId req) \<le> 0
      then (Inl (Status_Error InvalidArgument ''tenant_id must be positive''), st)
      else if ur_Id req = ''''
      then (Inl (Status_Error InvalidArgument ''id is required''), st)
      else if ur_Name req = ''''
      then (Inl (Status_Error InvalidArgument ''name is required''), st)
      else if ur_Price req < 0
      then (Inl (Status_Error InvalidArgument ''price cannot be negative''), st)
      else
        (let category = protoToDataCategory (ur_Category req);
             status = protoToDataStatus (ur_Status req)
         in case store_UpdateItem (store s) (ur_TenantId req) (ur_Id req) (ur_Name req)
                   (ur_Description req) (ur_Price req) category status (ur_Sku req)
                   (ur_InventoryCount req) (ur_Tags req) (ur_UpdatedBy req) st of
              ((item, Some err), st') \<Rightarrow>
                (if err = ErrItemNotFound
                 then (Inl (Status_Error NotFound ''item not found''), st')
                 else (Inl (Status_Error Internal ''failed to update item''), st'))
            | ((item, None), st') \<Rightarrow>
                (Inr (UpdateItemResponse (dataToProtoItem item)), st')))"

definition Server_DeleteItem ::
  "'s StoreServiceServer \<Rightarrow> DeleteItemRequest \<Rightarrow> 's \<Rightarrow> (rpc_error + DeleteItemResponse) \<times> 's" where
  "Server_DeleteItem s req st =
     (if sint (dr_TenantId req) \<le> 0
      then (Inl (Status_Error InvalidArgument ''tenant_id must be positive''), st)
      else if dr_Id req = ''''
      then (Inl (Status_Error InvalidArgument ''id is required''), st)
      else
        (case store_DeleteItem (store s) (dr_TenantId req) (dr_Id req) st of
           (Some err, st') \<Rightarrow>
             (if err = ErrItemNotFound
              then (Inl (Status_Error NotFound ''item not found''), st')
              else (Inl (Status_Error Internal ''failed to delete item''), st'))
         | (None, st') \<Rightarrow> (Inr (DeleteItemResponse True), st')))"

definition Server_ListItems ::
  "'s StoreServiceServer \<Rightarrow> ListItemsRequest \<Rightarrow> 's \<Rightarrow> (rpc_error + ListItemsResponse) \<times> 's" where
  "Server_ListItems s req st =
     (if sint (lr_TenantId req) \<le> 0
      then (Inl (Status_Error InvalidArgument ''tenant_id must be positive''), st)
      else
        (let pageSize = lr_PageSize req;
             pageSize = (if sint pageSize \<le> 0 then 100 else pageSize);
             pageSize = (if sint pageSize > 1000 then 1000 else pageSize);
             category = protoToDataCategory (lr_Category req);
             status = protoToDataStatus (lr_Status req)
         in case store_ListItems (store s) (lr_TenantId req) category status
                   (lr_SearchQuery req) pageSize (lr_PageToken req) st of
              ((items, nextPageToken, totalCount, Some err), st') \<Rightarrow>
                (Inl (Status_Error Internal ''failed to list items''), st')
            | ((items, nextPageToken, totalCount, None), st') \<Rightarrow>
                (Inr \<lparr>lresp_Items = map dataToProtoItem items,
                      lresp_NextPageToken = nextPageToken,
                      lresp_TotalCount = totalCount\<rparr>, st')))"

definition Server_UpdateInventory ::
  "'s StoreServiceServer \<Rightarrow> UpdateInventoryRequest \<Rightarrow> 's
     \<Rightarrow> (rpc_error + UpdateInventoryResponse) \<times> 's" where
  "Server_UpdateInventory s req st =
     (if sint (ir_TenantId req) \<le> 0
      then (Inl (Status_Error InvalidArgument ''tenant_id must be positive''), st)
      else if ir_ItemId req = ''''
      then (Inl (Status_Error InvalidArgument ''item_id is required''), st)
      else
        (case store_UpdateInventory (store s) (ir_TenantId req) (ir_ItemId req)
                (ir_QuantityChange req) (ir_Reason req) (ir_UpdatedBy req) st of
           ((item, previousCount, Some err), st') \<Rightarrow>
             (if err = ErrItemNotFound
              then (Inl (Status_Error NotFound ''item not found''), st')
              else (Inl (Status_Error Internal ''failed to update inventory''), st'))
         | ((item, previousCount, None), st') \<Rightarrow>
             (Inr \<lparr>iresp_Item = dataToProtoItem item,
                   iresp_PreviousCount = previousCount\<rparr>, st')))"

text \<open>
  A store that only records how it is called: its state is the list of the calls made
  so far, with their arguments, and every call returns zero values and no error.
\<close>

datatype store_call =
    Call_CreateItem int64 string string float64 ItemCategory string int32 "string list" string
  | Call_GetItem int64 string
  | Call_UpdateItem int64 string string string float64 ItemCategory ItemStatus string int32
      "string list" string
  | Call_DeleteItem int64 string
  | Call_ListItems int64 ItemCategory ItemStatus string int32 string
  | Call_UpdateInventory int64 string int32 string string

definition recording_store :: "store_call list StoreInterface" where
  "recording_store =
     \<lparr>store_CreateItem = (\<lambda>t n de p c sku inv tags who calls.
        ((Item_zero, None), calls @ [Call_CreateItem t n de p c sku inv tags who])),
      store_GetItem = (\<lambda>t i calls. ((Item_zero, None), calls @ [Call_GetItem t i])),
      store_UpdateItem = (\<lambda>t i n de p c s sku inv tags who calls.
        ((Item_zero, None), calls @ [Call_UpdateItem t i n de p c s sku inv tags who])),
      store_DeleteItem = (\<lambda>t i calls. (None, calls @ [Call_DeleteItem t i])),
      store_ListItems = (\<lambda>t c s q n tok calls.
        (([], '''', 0, None), calls @ [Call_ListItems t c s q n tok])),
      store_UpdateInventory = (\<lambda>t i q r who calls.
        ((Item_zero, 0, None), calls @ [Call_UpdateInventory t i q r who]))\<rparr>"

section \<open>Auxiliary definitions and example data\<close>

text \<open>The two key strings of an item, and the attributes an update starts from.\<close>

definition item_pksk :: "int64 \<Rightarrow> string \<Rightarrow> string \<times> string" where
  "item_pksk tenantID itemID = (''TENANT#'' @ Sprintf_d (sint tenantID), ''ITEM#'' @ itemID)"

definition stored :: "table \<Rightarrow> string \<times> string \<Rightarrow> attrmap" where
  "stored t k = (case map_of t k of None \<Rightarrow> key_attrs k | Some m \<Rightarrow> m)"

text \<open>
  The records of a page that decode, in the order of the page: what a listing without
  filters returns.
\<close>

definition page_items :: "attrmap list \<Rightarrow> Item list" where
  "page_items ms =
     List.map_filter (\<lambda>m. case UnmarshalMap m of Inl err \<Rightarrow> None | Inr i \<Rightarrow> Some i) ms"

text \<open>A store on the reference model, an empty backing store, and one created item.\<close>

definition ex_store :: "dynamodb DynamoStore" where
  "ex_store = \<lparr>client = dynamo, tableName = ''store-items''\<rparr>"

definition ex_empty :: dynamodb where
  "ex_empty = (\<lambda>name. [])"

definition ex_created :: "(Item \<times> error option) \<times> dynamodb" where
  "ex_created =
     CreateItem ex_store ''id-1'' 1700000000123456789 5 ''Widget'' ''A widget'' (1999 / 100)
       ItemCategoryBooks ''SKU-1'' 10 [''new'', ''sale''] ''alice'' ex_empty"

text \<open>
  The created item after a soft delete; an item created with the lowest \<^verbatim>\<open>int32\<close>
  as its count, and an inventory update of \<open>-1\<close> on it; a store whose backing store
  refuses every write.
\<close>

definition ex_deleted :: "error option \<times> dynamodb" where
  "ex_deleted = DeleteItem ex_store 1700000002500000000 5 ''id-1'' (snd ex_created)"

definition ex_negative :: "(Item \<times> error option) \<times> dynamodb" where
  "ex_negative =
     CreateItem ex_store ''id-2'' 1700000000000000000 5 ''Gadget'' '''' 1 ItemCategoryHome
       '''' (- 2147483648) [] ''bob'' ex_empty"

definition ex_wrapped :: "(Item \<times> int32 \<times> error option) \<times> dynamodb" where
  "ex_wrapped =
     UpdateInventory ex_store 1700000001000000000 5 ''id-2'' (- 1) ''sale'' ''bob''
       (snd ex_negative)"

definition ex_failing :: "dynamodb DynamoStore" where
  "ex_failing = \<lparr>client = dynamo_failing_writes, tableName = ''store-items''\<rparr>"

text \<open>Requests that fail validation, and two list requests with page sizes out of range.\<close>

definition ex_cr_bad :: CreateItemRequest where
  "ex_cr_bad =
     \<lparr>cr_TenantId = 5, cr_Name = ''Widget'', cr_Description = '''', cr_Price = - 1,
      cr_Category = ItemCategory_ITEM_CATEGORY_BOOKS, cr_Sku = '''', cr_InventoryCount = 1,
      cr_Tags = [], cr_CreatedBy = ''alice''\<rparr>"

definition ex_gr_bad :: GetItemRequest where
  "ex_gr_bad = \<lparr>gr_TenantId = 5, gr_Id = ''''\<rparr>"

definition ex_ur_bad :: UpdateItemRequest where
  "ex_ur_bad =
     \<lparr>ur_TenantId = 5, ur_Id = ''id-1'', ur_Name = '''', ur_Description = '''', ur_Price = 1,
      ur_Category = ItemCategory_ITEM_CATEGORY_BOOKS, ur_Status = ItemStatus_ITEM_STATUS_ACTIVE,
      ur_Sku = '''', ur_InventoryCount = 1, ur_Tags = [], ur_UpdatedBy = ''alice''\<rparr>"

definition ex_dr_bad :: DeleteItemRequest where
  "ex_dr_bad = \<lparr>dr_TenantId = 0, dr_Id = ''id-1''\<rparr>"

definition ex_lr_bad :: ListItemsRequest where
  "ex_lr_bad =
     \<lparr>lr_TenantId = - 1, lr_Category = ItemCategory_ITEM_CATEGORY_UNSPECIFIED,
      lr_Status = ItemStatus_ITEM_STATUS_UNSPECIFIED, lr_SearchQuery = '''',
      lr_PageSize = 10, lr_PageToken = ''''\<rparr>"

definition ex_ir_bad :: UpdateInventoryRequest where
  "ex_ir_bad =
     \<lparr>ir_TenantId = 5, ir_ItemId = '''', ir_QuantityChange = 1, ir_Reason = '''',
      ir_UpdatedBy = ''alice''\<rparr>"

definition ex_lr_zero :: ListItemsRequest where
  "ex_lr_zero =
     \<lparr>lr_TenantId = 5, lr_Category = ItemCategory_ITEM_CATEGORY_BOOKS,
      lr_Status = ItemStatus_ITEM_STATUS_UNSPECIFIED, lr_SearchQuery = ''w'',
      lr_PageSize = 0, lr_PageToken = ''ITEM#id-1''\<rparr>"

definition ex_lr_big :: ListItemsRequest where
  "ex_lr_big = ex_lr_zero\<lparr>lr_PageSize := 5000\<rparr>"

text \<open>
  A second item for the same tenant, in another category, and a listing of the
  tenant's books with a page size of two.
\<close>

definition ex_two :: "(Item \<times> error option) \<times> dynamodb" where
  "ex_two =
     CreateItem ex_store ''id-3'' 1700000000500000000 5 ''Phone'' '''' 300
       ItemCategoryElectronics ''SKU-3'' 4 [] ''bob'' (snd ex_created)"

definition ex_listed :: "(Item list \<times> string \<times> int32 \<times> error option) \<times> dynamodb" where
  "ex_listed =
     ListItems ex_store 5 ItemCategoryBooks ItemStatusUnspecified ''phone'' 2 ''''
       (snd ex_two)"

definition ex_next :: "(Item list \<times> string \<times> int32 \<times> error option) \<times> dynamodb" where
  "ex_next =
     ListItems ex_store 5 ItemCategoryUnspecified ItemStatusUnspecified '''' 1 ''ITEM#id-1''
       (snd ex_two)"

definition ex_all :: "(Item list \<times> string \<times> int32 \<times> error option) \<times> dynamodb" where
  "ex_all =
     ListItems ex_store 5 ItemCategoryUnspecified ItemStatusUnspecified '''' 10 ''''
       (snd ex_two)"

text \<open>
  A backing store client that only records how it is called: its state is the list of
  the calls made so far, and every call succeeds and finds nothing.
\<close>

datatype client_call =
    Client_PutItem PutItemInput
  | Client_GetItem GetItemInput
  | Client_UpdateItem UpdateItemInput
  | Client_Query QueryInput

definition recording_client :: "client_call list client" where
  "recording_client =
     \<lparr>client_PutItem = (\<lambda>i calls. (None, calls @ [Client_PutItem i])),
      client_GetItem = (\<lambda>i calls. (Inr \<lparr>got_Item = None\<rparr>, calls @ [Client_GetItem i])),
      client_UpdateItem = (\<lambda>i calls. (None, calls @ [Client_UpdateItem i])),
      client_Query = (\<lambda>i calls.
        (Inr \<lparr>res_Items = [], res_LastEvaluatedKey = None\<rparr>, calls @ [Client_Query i]))\<rparr>"

text \<open>A delete request for an item that was never created, served on the empty store.\<close>

definition ex_dr_missing :: DeleteItemRequest where
  "ex_dr_missing = \<lparr>dr_TenantId = 5, dr_Id = ''missing''\<rparr>"

definition ex_deleted_missing :: "(rpc_error + DeleteItemResponse) \<times> dynamodb" where
  "ex_deleted_missing =
     Server_DeleteItem \<lparr>store = DynamoStore_interface ex_store ''id-9'' 1700000002500000000\<rparr>
       ex_dr_missing ex_empty"

section \<open>Properties of the encoder and of the reference model\<close>

lemma dec_elems_map_AttrS: "dec_elems f (map AttrS xs) = Inr xs"
  by (induction xs) (simp_all add: dec_string_def)

lemma dec_int_AttrN_int:
  "lo \<le> x \<Longrightarrow> x \<le> hi \<Longrightarrow> dec_int f lo hi (Some (AttrN_int x)) = Inr x"
  by (simp add: dec_int_def AttrN_int_def)

lemma dec_int32_sint: "dec_int32 f (Some (AttrN_int (sint (w::int32)))) = Inr w"
proof -
  have "- (2 ^ 31) \<le> sint w" "sint w \<le> 2 ^ 31 - 1"
    using sint_range_size [of w] by (simp_all add: word_size)
  then show ?thesis by (simp add: dec_int32_def dec_int_AttrN_int)
qed

lemma dec_int64_sint: "dec_int64 f (Some (AttrN_int (sint (w::int64)))) = Inr w"
proof -
  have "- (2 ^ 63) \<le> sint w" "sint w \<le> 2 ^ 63 - 1"
    using sint_range_size [of w] by (simp_all add: word_size)
  then show ?thesis by (simp add: dec_int64_def dec_int_AttrN_int)
qed

text \<open>Decoding an encoded item gives the item back.\<close>

lemma Unmarshal_Marshal: "MarshalMap i = Inr m \<Longrightarrow> UnmarshalMap m = Inr i"
  by (cases "Tags i = []")
     (auto simp: MarshalMap_def UnmarshalMap_def and_then_def dec_int32_sint dec_int64_sint
        dec_string_def dec_float64_def dec_time_def dec_strings_def dec_elems_map_AttrS)

lemma MarshalMap_total: "\<exists>m. MarshalMap i = Inr m"
  by (simp add: MarshalMap_def Let_def)

lemma key_of_MarshalMap: "MarshalMap i = Inr m \<Longrightarrow> key_of m = Some (PK i, SK i)"
  by (auto simp: MarshalMap_def key_of_def Let_def)

lemma key_of_item_key: "key_of (item_key t i) = Some (item_pksk t i)"
  by (simp add: key_of_def item_key_def item_pksk_def)

text \<open>On the reference model a read does not change the backing store.\<close>

lemma GetItem_reference:
  "client_GetItem (client s) = dynamo_GetItem \<Longrightarrow>
   GetItem s t i d =
     (case map_of (d (tableName s)) (item_pksk t i) of
        None \<Rightarrow> ((Item_zero, Some ErrItemNotFound), d)
      | Some av \<Rightarrow>
          (case UnmarshalMap av of
             Inl err \<Rightarrow> ((Item_zero, Some (Errorf ''failed to unmarshal item'' err)), d)
           | Inr item \<Rightarrow> ((item, None), d)))"
  by (simp add: GetItem_def dynamo_GetItem_def key_of_item_key)

lemma GetItem_dynamo:
  "client s = dynamo \<Longrightarrow>
   GetItem s t i d =
     (case map_of (d (tableName s)) (item_pksk t i) of
        None \<Rightarrow> ((Item_zero, Some ErrItemNotFound), d)
      | Some av \<Rightarrow>
          (case UnmarshalMap av of
             Inl err \<Rightarrow> ((Item_zero, Some (Errorf ''failed to unmarshal item'' err)), d)
           | Inr item \<Rightarrow> ((item, None), d)))"
  by (rule GetItem_reference) (simp add: dynamo_def)

lemma CreateItem_Some:
  "CreateItem s itemID now t n de p c sku cnt tags who d = ((item, None), d') \<Longrightarrow>
   item = \<lparr>PK = ''TENANT#'' @ Sprintf_d (sint t), SK = ''ITEM#'' @ itemID, ItemID = itemID,
           TenantID = t, Name = n, Description = de, Price = p, Category = c,
           Status = ItemStatusActive, SKU = sku, InventoryCount = cnt, Tags = tags,
           CreatedAt = now, UpdatedAt = now, CreatedBy = who, UpdatedBy = who\<rparr>"
  by (auto simp: CreateItem_def Let_def split: sum.splits prod.splits option.splits)

text \<open>On the reference model a create succeeds and stores the encoded item at its key.\<close>

lemma CreateItem_dynamo:
  assumes "client s = dynamo"
    and "CreateItem s itemID now t n de p c sku cnt tags who d = ((item, e), d')"
  shows "e = None \<and> (\<exists>av. MarshalMap item = Inr av \<and>
           d' = d(tableName s := AList.update (PK item, SK item) av (d (tableName s))))"
proof -
  define it where "it =
    \<lparr>PK = ''TENANT#'' @ Sprintf_d (sint t), SK = ''ITEM#'' @ itemID, ItemID = itemID,
     TenantID = t, Name = n, Description = de, Price = p, Category = c,
     Status = ItemStatusActive, SKU = sku, InventoryCount = cnt, Tags = tags,
     CreatedAt = now, UpdatedAt = now, CreatedBy = who, UpdatedBy = who\<rparr>"
  obtain av where av: "MarshalMap it = Inr av"
    using MarshalMap_total by blast
  have k: "key_of av = Some (PK it, SK it)"
    using av by (rule key_of_MarshalMap)
  have "CreateItem s itemID now t n de p c sku cnt tags who d =
        ((it, None), d(tableName s := AList.update (PK it, SK it) av (d (tableName s))))"
    unfolding CreateItem_def Let_def it_def [symmetric]
    by (simp add: av assms(1) dynamo_def dynamo_PutItem_def k)
  with assms(2) av show ?thesis by auto
qed

lemma ex_created_None: "snd (fst ex_created) = None"
proof -
  have c: "client ex_store = dynamo"
    by (simp add: ex_store_def)
  obtain item e d' where r: "ex_created = ((item, e), d')"
    by (metis prod.collapse)
  then have "e = None"
    using CreateItem_dynamo [OF c] unfolding ex_created_def by blast
  then show ?thesis
    by (simp add: r)
qed

lemma ex_created_ok:
  "CreateItem ex_store ''id-1'' 1700000000123456789 5 ''Widget'' ''A widget'' (1999 / 100)
     ItemCategoryBooks ''SKU-1'' 10 [''new'', ''sale''] ''alice'' ex_empty =
   ((fst (fst ex_created), None), snd ex_created)"
  unfolding ex_created_def [symmetric]
  by (simp add: prod_eq_iff ex_created_None)

text \<open>On the reference model a read after a create returns the created item.\<close>

lemma CreateItem_then_GetItem:
  assumes "client s = dynamo"
    and "CreateItem s itemID now t n de p c sku cnt tags who d = ((item, None), d')"
  shows "GetItem s t itemID d' = ((item, None), d')"
proof -
  from CreateItem_dynamo [OF assms] obtain av where av: "MarshalMap item = Inr av"
    and d': "d' = d(tableName s := AList.update (PK item, SK item) av (d (tableName s)))"
    by blast
  have key: "item_pksk t itemID = (PK item, SK item)"
    using CreateItem_Some [OF assms(2)] by (simp add: item_pksk_def)
  show ?thesis
    unfolding GetItem_dynamo [OF assms(1)] key d'
    by (simp add: update_conv' Unmarshal_Marshal [OF av])
qed

section \<open>Creating and reading items\<close>

text \<open>
  Claim C4. Whenever \<^verbatim>\<open>CreateItem\<close> succeeds, whatever the backing store, the item
  it returns has status active, its creation time equal to its update time, and both
  its creator and its last updater equal to the actor passed in.
\<close>

theorem CreateItem_active_and_stamped:
  assumes "CreateItem s itemID now tenantID name description price category sku
             inventoryCount tags createdBy d = ((item, None), d')"
  shows "Status item = ItemStatusActive \<and> CreatedAt item = UpdatedAt item \<and>
         CreatedBy item = createdBy \<and> UpdatedBy item = createdBy"
  using CreateItem_Some [OF assms] by simp

theorem CreateItem_active_and_stamped_witness:
  "snd (fst ex_created) = None \<and>
   Status (fst (fst ex_created)) = ItemStatusActive \<and>
   CreatedAt (fst (fst ex_created)) = UpdatedAt (fst (fst ex_created)) \<and>
   CreatedBy (fst (fst ex_created)) = ''alice'' \<and>
   UpdatedBy (fst (fst ex_created)) = ''alice''"
proof -
  show ?thesis
    using ex_created_None CreateItem_active_and_stamped [OF ex_created_ok] by simp
qed

text \<open>
  Claim C5. On the reference model of the backing store, after a successful
  \<^verbatim>\<open>CreateItem\<close> a \<^verbatim>\<open>GetItem\<close> for the same tenant and the identifier of the created
  item succeeds, leaves the backing store as it is, and returns the created item:
  name, description, price, category, SKU, inventory count and tags are the values
  that were passed to \<^verbatim>\<open>CreateItem\<close>.
\<close>

theorem CreateItem_GetItem_roundtrip:
  assumes "client s = dynamo"
    and "CreateItem s itemID now tenantID name description price category sku
           inventoryCount tags createdBy d = ((item, None), d')"
  shows "\<exists>got. GetItem s tenantID (ItemID item) d' = ((got, None), d') \<and>
           Name got = name \<and> Description got = description \<and> Price got = price \<and>
           Category got = category \<and> SKU got = sku \<and>
           InventoryCount got = inventoryCount \<and> Tags got = tags"
proof -
  have it: "item = \<lparr>PK = ''TENANT#'' @ Sprintf_d (sint tenantID), SK = ''ITEM#'' @ itemID,
      ItemID = itemID, TenantID = tenantID, Name = name, Description = description,
      Price = price, Category = category, Status = ItemStatusActive, SKU = sku,
      InventoryCount = inventoryCount, Tags = tags, CreatedAt = now, UpdatedAt = now,
      CreatedBy = createdBy, UpdatedBy = createdBy\<rparr>"
    using CreateItem_Some [OF assms(2)] .
  then have "ItemID item = itemID"
    by simp
  then have "GetItem s tenantID (ItemID item) d' = ((item, None), d')"
    using CreateItem_then_GetItem [OF assms] by simp
  moreover have "Name item = name \<and> Description item = description \<and> Price item = price \<and>
      Category item = category \<and> SKU item = sku \<and> InventoryCount item = inventoryCount \<and>
      Tags item = tags"
    by (subst (1 2 3 4 5 6 7) it) simp
  ultimately show ?thesis by blast
qed

theorem CreateItem_GetItem_roundtrip_witness:
  "client ex_store = dynamo \<and> snd (fst ex_created) = None \<and>
   (\<exists>got. GetItem ex_store 5 (ItemID (fst (fst ex_created))) (snd ex_created) =
             ((got, None), snd ex_created) \<and>
      Name got = ''Widget'' \<and> Description got = ''A widget'' \<and> Price got = 1999 / 100 \<and>
      Category got = ItemCategoryBooks \<and> SKU got = ''SKU-1'' \<and>
      InventoryCount got = 10 \<and> Tags got = [''new'', ''sale''])"
proof -
  have c: "client ex_store = dynamo"
    by (simp add: ex_store_def)
  show ?thesis
    using c ex_created_None CreateItem_GetItem_roundtrip [OF c ex_created_ok] by simp
qed

section \<open>Listing\<close>

text \<open>
  Claim C8. The search query has no influence on \<^verbatim>\<open>ListItems\<close>: for any backing
  store, any state of it and any other arguments, two calls that differ only in the
  search query return the same items, the same next page token, the same count and
  the same error, and leave the backing store in the same state.
\<close>

theorem ListItems_ignores_searchQuery:
  "ListItems s tenantID category status searchQuery1 pageSize pageToken d =
   ListItems s tenantID category status searchQuery2 pageSize pageToken d"
  by (simp add: ListItems_def)

section \<open>Updates on the reference model\<close>

lemma and_then_Inr_iff: "and_then r k = Inr y \<longleftrightarrow> (\<exists>x. r = Inr x \<and> k x = Inr y)"
  by (cases r) (simp_all add: and_then_def)

text \<open>An attribute map decodes to an item exactly when every field decodes to its value.\<close>

lemma UnmarshalMap_Inr_iff:
  "UnmarshalMap m = Inr i \<longleftrightarrow>
     dec_string ''PK'' (m ''PK'') = Inr (PK i) \<and>
     dec_string ''SK'' (m ''SK'') = Inr (SK i) \<and>
     dec_string ''ItemID'' (m ''ItemID'') = Inr (ItemID i) \<and>
     dec_int64 ''TenantID'' (m ''TenantID'') = Inr (TenantID i) \<and>
     dec_string ''Name'' (m ''Name'') = Inr (Name i) \<and>
     dec_string ''Description'' (m ''Description'') = Inr (Description i) \<and>
     dec_float64 ''Price'' (m ''Price'') = Inr (Price i) \<and>
     dec_int64 ''Category'' (m ''Category'') = Inr (Category i) \<and>
     dec_int64 ''Status'' (m ''Status'') = Inr (Status i) \<and>
     dec_string ''SKU'' (m ''SKU'') = Inr (SKU i) \<and>
     dec_int32 ''InventoryCount'' (m ''InventoryCount'') = Inr (InventoryCount i) \<and>
     dec_strings ''Tags'' (m ''Tags'') = Inr (Tags i) \<and>
     dec_time ''CreatedAt'' (m ''CreatedAt'') = Inr (CreatedAt i) \<and>
     dec_time ''UpdatedAt'' (m ''UpdatedAt'') = Inr (UpdatedAt i) \<and>
     dec_string ''CreatedBy'' (m ''CreatedBy'') = Inr (CreatedBy i) \<and>
     dec_string ''UpdatedBy'' (m ''UpdatedBy'') = Inr (UpdatedBy i)"
  unfolding UnmarshalMap_def and_then_Inr_iff
  by (cases i) auto

lemma Unmarshal_soft_delete:
  "UnmarshalMap m = Inr i \<Longrightarrow>
   UnmarshalMap (m(''Status'' \<mapsto> AttrN_int (sint st), ''UpdatedAt'' \<mapsto> AttrT t)) =
     Inr (i\<lparr>Status := st, UpdatedAt := t\<rparr>)"
  by (simp add: UnmarshalMap_Inr_iff dec_int64_sint dec_time_def)

lemma Unmarshal_inventory:
  "UnmarshalMap m = Inr i \<Longrightarrow>
   UnmarshalMap (m(''InventoryCount'' \<mapsto> AttrN_int (sint c), ''UpdatedAt'' \<mapsto> AttrT t,
                   ''UpdatedBy'' \<mapsto> AttrS u)) =
     Inr (i\<lparr>InventoryCount := c, UpdatedAt := t, UpdatedBy := u\<rparr>)"
  by (simp add: UnmarshalMap_Inr_iff dec_int32_sint dec_time_def dec_string_def)

lemma parse_SET_delete:
  "parse_SET ''SET #status = :status, #updatedAt = :updatedAt'' =
     Some [(''#status'', '':status''), (''#updatedAt'', '':updatedAt'')]"
  by (simp add: parse_SET_def parse_assignment_def trim_def)

lemma parse_SET_inventory:
  "parse_SET ''SET #inventory = :inventory, #updatedAt = :updatedAt, #updatedBy = :updatedBy'' =
     Some [(''#inventory'', '':inventory''), (''#updatedAt'', '':updatedAt''),
           (''#updatedBy'', '':updatedBy'')]"
  by (simp add: parse_SET_def parse_assignment_def trim_def)

text \<open>
  The soft delete on the reference model: it never fails, and it sets the two
  attributes on the stored item, or on a new item that has only its key.
\<close>

lemma DeleteItem_dynamo:
  assumes "client s = dynamo"
  shows "DeleteItem s now t i d =
     (None, d(tableName s :=
        AList.update (item_pksk t i)
          ((stored (d (tableName s)) (item_pksk t i))
             (''Status'' \<mapsto> AttrN_int (sint ItemStatusDiscontinued),
              ''UpdatedAt'' \<mapsto> AttrT (Format_RFC3339 now)))
          (d (tableName s))))"
  by (simp add: DeleteItem_def assms dynamo_def dynamo_UpdateItem_def key_of_item_key
      parse_SET_delete resolve_def assign_def Let_def stored_def)

lemma UpdateItem_inventory_dynamo:
  "dynamo_UpdateItem
     \<lparr>upd_TableName = tn,
      upd_Key = item_key t i,
      upd_UpdateExpression = ''SET #inventory = :inventory, #updatedAt = :updatedAt, #updatedBy = :updatedBy'',
      upd_ExpressionAttributeNames =
        [''#inventory'' \<mapsto> ''InventoryCount'',
         ''#updatedAt'' \<mapsto> ''UpdatedAt'',
         ''#updatedBy'' \<mapsto> ''UpdatedBy''],
      upd_ExpressionAttributeValues =
        ['':inventory'' \<mapsto> a, '':updatedAt'' \<mapsto> b, '':updatedBy'' \<mapsto> c]\<rparr> d =
   (None, d(tn := AList.update (item_pksk t i)
      ((stored (d tn) (item_pksk t i))
         (''InventoryCount'' \<mapsto> a, ''UpdatedAt'' \<mapsto> b, ''UpdatedBy'' \<mapsto> c)) (d tn)))"
  by (simp add: dynamo_UpdateItem_def key_of_item_key
      parse_SET_inventory resolve_def assign_def Let_def stored_def)

text \<open>What a successful read on the reference model says about the table.\<close>

lemma GetItem_dynamo_Some:
  assumes "client_GetItem (client s) = dynamo_GetItem"
    and "GetItem s t i d = ((item, None), d0)"
  shows "d0 = d \<and> (\<exists>av. map_of (d (tableName s)) (item_pksk t i) = Some av \<and>
            UnmarshalMap av = Inr item)"
  using assms(2) unfolding GetItem_reference [OF assms(1)]
  by (auto split: option.splits sum.splits)

text \<open>
  A successful inventory update on the reference model: the new count, the update
  time and the updater are written, and the item read back carries them.
\<close>

lemma UpdateInventory_dynamo_ok:
  assumes c: "client s = dynamo"
    and get: "GetItem s t i d = ((item, None), d0)"
    and ok: "\<not> sint (InventoryCount item + q) < 0"
  shows "\<exists>d'. UpdateInventory s now t i q r u d =
           ((item\<lparr>InventoryCount := InventoryCount item + q,
                  UpdatedAt := Format_RFC3339 now, UpdatedBy := u\<rparr>,
             InventoryCount item, None), d') \<and>
           GetItem s t i d' =
             ((item\<lparr>InventoryCount := InventoryCount item + q,
                    UpdatedAt := Format_RFC3339 now, UpdatedBy := u\<rparr>, None), d')"
proof -
  have g: "client_GetItem (client s) = dynamo_GetItem"
    by (simp add: c dynamo_def)
  have u: "client_UpdateItem (client s) = dynamo_UpdateItem"
    by (simp add: c dynamo_def)
  from GetItem_dynamo_Some [OF g get] obtain av where d0: "d0 = d"
    and av: "map_of (d (tableName s)) (item_pksk t i) = Some av"
    and dec: "UnmarshalMap av = Inr item"
    by blast
  define av' where "av' = av(''InventoryCount'' \<mapsto> AttrN_int (sint (InventoryCount item + q)),
     ''UpdatedAt'' \<mapsto> AttrT (Format_RFC3339 now), ''UpdatedBy'' \<mapsto> AttrS u)"
  define d' where "d' = d(tableName s := AList.update (item_pksk t i) av' (d (tableName s)))"
  define item' where "item' = item\<lparr>InventoryCount := InventoryCount item + q,
     UpdatedAt := Format_RFC3339 now, UpdatedBy := u\<rparr>"
  have dec': "UnmarshalMap av' = Inr item'"
    unfolding av'_def item'_def using dec by (rule Unmarshal_inventory)
  have get': "GetItem s t i d' = ((item', None), d')"
    unfolding GetItem_reference [OF g]
    by (simp add: d'_def update_conv' dec')
  have st: "stored (d (tableName s)) (item_pksk t i) = av"
    by (simp add: stored_def av)
  have "UpdateInventory s now t i q r u d = ((item', InventoryCount item, None), d')"
    unfolding UpdateInventory_def get d0 Let_def u UpdateItem_inventory_dynamo
    using ok get' by (simp add: st d'_def av'_def)
  with get' show ?thesis
    unfolding item'_def by blast
qed

section \<open>Soft delete\<close>

lemma CreateItem_dynamo_result:
  assumes "client s = dynamo"
  shows "CreateItem s itemID now t n de p c sku cnt tags who d =
     ((fst (fst (CreateItem s itemID now t n de p c sku cnt tags who d)), None),
      snd (CreateItem s itemID now t n de p c sku cnt tags who d))"
proof -
  obtain item e d' where
    r: "CreateItem s itemID now t n de p c sku cnt tags who d = ((item, e), d')"
    by (metis prod.collapse)
  then have "e = None"
    using CreateItem_dynamo [OF assms] by blast
  then show ?thesis
    by (simp add: r)
qed

lemma client_ex_store: "client ex_store = dynamo"
  by (simp add: ex_store_def)

lemma ex_created_item:
  "fst (fst ex_created) =
     \<lparr>PK = ''TENANT#'' @ Sprintf_d (sint (5::int64)), SK = ''ITEM#'' @ ''id-1'',
      ItemID = ''id-1'', TenantID = 5, Name = ''Widget'', Description = ''A widget'',
      Price = 1999 / 100, Category = ItemCategoryBooks, Status = ItemStatusActive,
      SKU = ''SKU-1'', InventoryCount = 10, Tags = [''new'', ''sale''],
      CreatedAt = 1700000000123456789, UpdatedAt = 1700000000123456789,
      CreatedBy = ''alice'', UpdatedBy = ''alice''\<rparr>"
  by (rule CreateItem_Some [OF ex_created_ok])

lemma ex_created_get:
  "GetItem ex_store 5 ''id-1'' (snd ex_created) = ((fst (fst ex_created), None), snd ex_created)"
  by (rule CreateItem_then_GetItem [OF client_ex_store ex_created_ok])

lemma soft_delete_then_get:
  assumes c: "client s = dynamo"
    and get: "GetItem s t i d = ((item, None), d0)"
    and del: "DeleteItem s now t i d = (e, d')"
  shows "e = None \<and>
         GetItem s t i d' =
           ((item\<lparr>Status := ItemStatusDiscontinued, UpdatedAt := Format_RFC3339 now\<rparr>,
             None), d')"
proof -
  have g: "client_GetItem (client s) = dynamo_GetItem"
    by (simp add: c dynamo_def)
  from GetItem_dynamo_Some [OF g get] obtain av
    where av: "map_of (d (tableName s)) (item_pksk t i) = Some av"
      and dec: "UnmarshalMap av = Inr item"
    by blast
  have st: "stored (d (tableName s)) (item_pksk t i) = av"
    by (simp add: stored_def av)
  from del have e: "e = None"
    and d': "d' = d(tableName s := AList.update (item_pksk t i)
        (av(''Status'' \<mapsto> AttrN_int (sint ItemStatusDiscontinued),
            ''UpdatedAt'' \<mapsto> AttrT (Format_RFC3339 now))) (d (tableName s)))"
    unfolding DeleteItem_dynamo [OF c] st by simp_all
  have "GetItem s t i d' =
      ((item\<lparr>Status := ItemStatusDiscontinued, UpdatedAt := Format_RFC3339 now\<rparr>, None), d')"
    unfolding GetItem_reference [OF g]
    by (simp add: d' update_conv' Unmarshal_soft_delete [OF dec])
  with e show ?thesis by simp
qed

text \<open>
  Claim C6. On the reference model of the backing store, for an item that \<^verbatim>\<open>GetItem\<close>
  returns, \<^verbatim>\<open>DeleteItem\<close> succeeds and a following \<^verbatim>\<open>GetItem\<close> for the same tenant
  and identifier succeeds too (it does not fail with \<open>ErrItemNotFound\<close>): it returns
  the same item with status discontinued and with the update time set to the time of
  the delete, in whole seconds; every other field is unchanged.
\<close>

theorem DeleteItem_then_GetItem:
  assumes "client s = dynamo"
    and "GetItem s tenantID itemID d = ((item, None), d0)"
    and "DeleteItem s now tenantID itemID d = (e, d')"
  shows "e = None \<and>
         GetItem s tenantID itemID d' =
           ((item\<lparr>Status := ItemStatusDiscontinued, UpdatedAt := Format_RFC3339 now\<rparr>,
             None), d')"
  using assms by (rule soft_delete_then_get)

theorem DeleteItem_then_GetItem_witness:
  "client ex_store = dynamo \<and>
   GetItem ex_store 5 ''id-1'' (snd ex_created) =
     ((fst (fst ex_created), None), snd ex_created) \<and>
   fst ex_deleted = None \<and>
   GetItem ex_store 5 ''id-1'' (snd ex_deleted) =
     ((fst (fst ex_created)
         \<lparr>Status := ItemStatusDiscontinued, UpdatedAt := 1700000002000000000\<rparr>, None),
      snd ex_deleted) \<and>
   Name (fst (fst ex_created)) = ''Widget''"
proof -
  have del: "DeleteItem ex_store 1700000002500000000 5 ''id-1'' (snd ex_created) =
      (fst ex_deleted, snd ex_deleted)"
    by (simp add: ex_deleted_def)
  have t: "Format_RFC3339 1700000002500000000 = 1700000002000000000"
    by (simp add: Format_RFC3339_def)
  have n: "Name (fst (fst ex_created)) = ''Widget''"
    by (subst ex_created_item) simp
  show ?thesis
    using DeleteItem_then_GetItem [OF client_ex_store ex_created_get del]
      client_ex_store ex_created_get n
    by (simp add: t)
qed

text \<open>
  The soft delete is one call of the client: an update at the item's key that sets the
  status and the update time. Its outcome decides the result.
\<close>

lemma DeleteItem_client:
  "DeleteItem s now t i d =
     (case client_UpdateItem (client s)
             \<lparr>upd_TableName = tableName s,
              upd_Key = item_key t i,
              upd_UpdateExpression = ''SET #status = :status, #updatedAt = :updatedAt'',
              upd_ExpressionAttributeNames =
                [''#status'' \<mapsto> ''Status'', ''#updatedAt'' \<mapsto> ''UpdatedAt''],
              upd_ExpressionAttributeValues =
                ['':status'' \<mapsto> AttrN_int (sint ItemStatusDiscontinued),
                 '':updatedAt'' \<mapsto> AttrT (Format_RFC3339 now)]\<rparr> d of
        (None, d') \<Rightarrow> (None, d')
      | (Some err, d') \<Rightarrow> (Some (Errorf ''failed to delete item'' err), d'))"
  by (simp add: DeleteItem_def split: prod.splits option.splits)

lemma DeleteItem_recorded:
  "DeleteItem \<lparr>client = recording_client, tableName = tn\<rparr> now t i calls =
     (None, calls @ [Client_UpdateItem
        \<lparr>upd_TableName = tn,
         upd_Key = item_key t i,
         upd_UpdateExpression = ''SET #status = :status, #updatedAt = :updatedAt'',
         upd_ExpressionAttributeNames =
           [''#status'' \<mapsto> ''Status'', ''#updatedAt'' \<mapsto> ''UpdatedAt''],
         upd_ExpressionAttributeValues =
           ['':status'' \<mapsto> AttrN_int (sint ItemStatusDiscontinued),
            '':updatedAt'' \<mapsto> AttrT (Format_RFC3339 now)]\<rparr>])"
  by (simp add: DeleteItem_def recording_client_def)

lemma DeleteItem_not_ErrItemNotFound:
  "fst (DeleteItem s now t i d) \<noteq> Some ErrItemNotFound"
  by (simp add: DeleteItem_def split: prod.splits option.splits)

lemma Server_DeleteItem_not_NotFound:
  "fst (Server_DeleteItem \<lparr>store = DynamoStore_interface s newID now\<rparr> req d) \<noteq>
     Inl (Status_Error NotFound msg)"
  using DeleteItem_not_ErrItemNotFound [of s now "dr_TenantId req" "dr_Id req" d]
  by (auto simp: Server_DeleteItem_def DynamoStore_interface_def
      split: prod.splits option.splits)

text \<open>An item that has only its key decodes to the zero item with the two key strings.\<close>

lemma Unmarshal_key_attrs:
  "UnmarshalMap (key_attrs k) = Inr (Item_zero\<lparr>PK := fst k, SK := snd k\<rparr>)"
  by (simp add: UnmarshalMap_Inr_iff key_attrs_def Item_zero_def dec_string_def dec_int64_def
      dec_int32_def dec_int_def dec_float64_def dec_strings_def dec_time_def)

text \<open>
  On the reference model a soft delete at a key without a record creates the record,
  and a read then finds it.
\<close>

lemma soft_delete_missing:
  assumes c: "client s = dynamo"
    and none: "map_of (d (tableName s)) (item_pksk t i) = None"
  shows "GetItem s t i (snd (DeleteItem s now t i d)) =
     ((Item_zero\<lparr>PK := fst (item_pksk t i), SK := snd (item_pksk t i),
                  Status := ItemStatusDiscontinued, UpdatedAt := Format_RFC3339 now\<rparr>, None),
      snd (DeleteItem s now t i d))"
proof -
  have st: "stored (d (tableName s)) (item_pksk t i) = key_attrs (item_pksk t i)"
    by (simp add: stored_def none)
  have dec: "UnmarshalMap ((key_attrs (item_pksk t i))
      (''Status'' \<mapsto> AttrN_int (sint ItemStatusDiscontinued),
       ''UpdatedAt'' \<mapsto> AttrT (Format_RFC3339 now))) =
     Inr (Item_zero\<lparr>PK := fst (item_pksk t i), SK := snd (item_pksk t i),
                     Status := ItemStatusDiscontinued, UpdatedAt := Format_RFC3339 now\<rparr>)"
    using Unmarshal_soft_delete [OF Unmarshal_key_attrs] by simp
  show ?thesis
    unfolding DeleteItem_dynamo [OF c] st GetItem_dynamo [OF c]
    by (simp add: update_conv' dec)
qed

lemma Server_DeleteItem_dynamo:
  assumes "client s = dynamo" and "0 < sint (dr_TenantId req)" and "dr_Id req \<noteq> ''''"
  shows "Server_DeleteItem \<lparr>store = DynamoStore_interface s newID now\<rparr> req d =
     (Inr (DeleteItemResponse True), snd (DeleteItem s now (dr_TenantId req) (dr_Id req) d))"
  using assms(2,3)
  by (simp add: Server_DeleteItem_def DynamoStore_interface_def DeleteItem_dynamo [OF assms(1)])

text \<open>
  Claim C10. \<^verbatim>\<open>DeleteItem\<close> of the store makes exactly one call of the backing store,
  the update that sets the status to discontinued and the update time at the item's
  key: it makes no read and no check that the item exists. It returns no error when the
  update succeeds and the client's error, wrapped in "failed to delete item", when it
  fails, with the state the update left; so it never returns \<open>ErrItemNotFound\<close>, and the
  handler on top of this store never answers \<open>NotFound\<close> to a delete. On the reference
  model the update is an upsert: \<^verbatim>\<open>DeleteItem\<close> succeeds for every tenant and
  identifier and writes the two attributes at the key; where no record existed a
  record is created, which a following \<^verbatim>\<open>GetItem\<close> returns with status discontinued;
  and the handler answers \<^verbatim>\<open>Success = true\<close> to every delete request that passes
  validation, with the write made, whether a record existed or not.
\<close>

theorem DeleteItem_never_NotFound:
  "DeleteItem s now tenantID itemID d =
     (case client_UpdateItem (client s)
             \<lparr>upd_TableName = tableName s,
              upd_Key = item_key tenantID itemID,
              upd_UpdateExpression = ''SET #status = :status, #updatedAt = :updatedAt'',
              upd_ExpressionAttributeNames =
                [''#status'' \<mapsto> ''Status'', ''#updatedAt'' \<mapsto> ''UpdatedAt''],
              upd_ExpressionAttributeValues =
                ['':status'' \<mapsto> AttrN_int (sint ItemStatusDiscontinued),
                 '':updatedAt'' \<mapsto> AttrT (Format_RFC3339 now)]\<rparr> d of
        (None, d') \<Rightarrow> (None, d')
      | (Some err, d') \<Rightarrow> (Some (Errorf ''failed to delete item'' err), d')) \<and>
   DeleteItem \<lparr>client = recording_client, tableName = tn\<rparr> now tenantID itemID calls =
     (None, calls @ [Client_UpdateItem
        \<lparr>upd_TableName = tn,
         upd_Key = item_key tenantID itemID,
         upd_UpdateExpression = ''SET #status = :status, #updatedAt = :updatedAt'',
         upd_ExpressionAttributeNames =
           [''#status'' \<mapsto> ''Status'', ''#updatedAt'' \<mapsto> ''UpdatedAt''],
         upd_ExpressionAttributeValues =
           ['':status'' \<mapsto> AttrN_int (sint ItemStatusDiscontinued),
            '':updatedAt'' \<mapsto> AttrT (Format_RFC3339 now)]\<rparr>]) \<and>
   fst (DeleteItem s now tenantID itemID d) \<noteq> Some ErrItemNotFound \<and>
   (\<forall>msg. fst (Server_DeleteItem \<lparr>store = DynamoStore_interface s newID now\<rparr> req d) \<noteq>
          Inl (Status_Error NotFound msg)) \<and>
   (client sr = dynamo \<longrightarrow>
      DeleteItem sr now tenantID itemID dr =
        (None, dr(tableName sr :=
           AList.update (item_pksk tenantID itemID)
             ((stored (dr (tableName sr)) (item_pksk tenantID itemID))
                (''Status'' \<mapsto> AttrN_int (sint ItemStatusDiscontinued),
                 ''UpdatedAt'' \<mapsto> AttrT (Format_RFC3339 now)))
             (dr (tableName sr))))) \<and>
   (client sr = dynamo \<longrightarrow> map_of (dr (tableName sr)) (item_pksk tenantID itemID) = None \<longrightarrow>
      GetItem sr tenantID itemID (snd (DeleteItem sr now tenantID itemID dr)) =
        ((Item_zero\<lparr>PK := fst (item_pksk tenantID itemID),
                     SK := snd (item_pksk tenantID itemID),
                     Status := ItemStatusDiscontinued,
                     UpdatedAt := Format_RFC3339 now\<rparr>, None),
         snd (DeleteItem sr now tenantID itemID dr))) \<and>
   (client sr = dynamo \<longrightarrow> 0 < sint (dr_TenantId req) \<longrightarrow> dr_Id req \<noteq> '''' \<longrightarrow>
      Server_DeleteItem \<lparr>store = DynamoStore_interface sr newID now\<rparr> req dr =
        (Inr (DeleteItemResponse True),
         snd (DeleteItem sr now (dr_TenantId req) (dr_Id req) dr)))"
proof -
  have 5: "client sr = dynamo \<longrightarrow>
      DeleteItem sr now tenantID itemID dr =
        (None, dr(tableName sr :=
           AList.update (item_pksk tenantID itemID)
             ((stored (dr (tableName sr)) (item_pksk tenantID itemID))
                (''Status'' \<mapsto> AttrN_int (sint ItemStatusDiscontinued),
                 ''UpdatedAt'' \<mapsto> AttrT (Format_RFC3339 now)))
             (dr (tableName sr))))"
    using DeleteItem_dynamo [of sr now tenantID itemID dr] by blast
  have 6: "client sr = dynamo \<longrightarrow>
      map_of (dr (tableName sr)) (item_pksk tenantID itemID) = None \<longrightarrow>
      GetItem sr tenantID itemID (snd (DeleteItem sr now tenantID itemID dr)) =
        ((Item_zero\<lparr>PK := fst (item_pksk tenantID itemID),
                     SK := snd (item_pksk tenantID itemID),
                     Status := ItemStatusDiscontinued,
                     UpdatedAt := Format_RFC3339 now\<rparr>, None),
         snd (DeleteItem sr now tenantID itemID dr))"
    using soft_delete_missing [of sr dr tenantID itemID now] by blast
  have 7: "client sr = dynamo \<longrightarrow> 0 < sint (dr_TenantId req) \<longrightarrow> dr_Id req \<noteq> '''' \<longrightarrow>
      Server_DeleteItem \<lparr>store = DynamoStore_interface sr newID now\<rparr> req dr =
        (Inr (DeleteItemResponse True),
         snd (DeleteItem sr now (dr_TenantId req) (dr_Id req) dr))"
    using Server_DeleteItem_dynamo [of sr req newID now dr] by blast
  have 4: "\<forall>msg. fst (Server_DeleteItem \<lparr>store = DynamoStore_interface s newID now\<rparr> req d) \<noteq>
      Inl (Status_Error NotFound msg)"
    using Server_DeleteItem_not_NotFound [of s newID now req d] by blast
  from DeleteItem_client [of s now tenantID itemID d]
    DeleteItem_recorded [of tn now tenantID itemID calls]
    DeleteItem_not_ErrItemNotFound [of s now tenantID itemID d] 4 5 6 7
  show ?thesis
    by (intro conjI)
qed

theorem DeleteItem_never_NotFound_witness:
  "GetItem ex_store 5 ''missing'' ex_empty = ((Item_zero, Some ErrItemNotFound), ex_empty) \<and>
   client ex_store = dynamo \<and>
   map_of (ex_empty (tableName ex_store)) (item_pksk 5 ''missing'') = None \<and>
   0 < sint (dr_TenantId ex_dr_missing) \<and>
   dr_Id ex_dr_missing \<noteq> '''' \<and>
   fst ex_deleted_missing = Inr (DeleteItemResponse True) \<and>
   snd ex_deleted_missing (tableName ex_store) \<noteq> ex_empty (tableName ex_store) \<and>
   GetItem ex_store 5 ''missing'' (snd ex_deleted_missing) =
     ((Item_zero\<lparr>PK := fst (item_pksk 5 ''missing''), SK := snd (item_pksk 5 ''missing''),
                  Status := ItemStatusDiscontinued, UpdatedAt := 1700000002000000000\<rparr>, None),
      snd ex_deleted_missing)"
proof -
  have g: "GetItem ex_store 5 ''missing'' ex_empty =
      ((Item_zero, Some ErrItemNotFound), ex_empty)"
    unfolding GetItem_dynamo [OF client_ex_store]
    by (simp add: ex_empty_def)
  have n: "map_of (ex_empty (tableName ex_store)) (item_pksk 5 ''missing'') = None"
    by (simp add: ex_empty_def)
  have p: "0 < sint (dr_TenantId ex_dr_missing)" "dr_Id ex_dr_missing \<noteq> ''''"
    and r: "dr_TenantId ex_dr_missing = 5" "dr_Id ex_dr_missing = ''missing''"
    by (simp_all add: ex_dr_missing_def)
  have t: "Format_RFC3339 1700000002500000000 = 1700000002000000000"
    by (simp add: Format_RFC3339_def)
  note w = DeleteItem_never_NotFound [of ex_store 1700000002500000000 5 "''missing''" ex_empty
      "''store-items''" "[]" "''id-9''" ex_dr_missing ex_store ex_empty]
  from w client_ex_store p have h: "ex_deleted_missing =
      (Inr (DeleteItemResponse True),
       snd (DeleteItem ex_store 1700000002500000000 5 ''missing'' ex_empty))"
    unfolding ex_deleted_missing_def r by blast
  from w client_ex_store n have a: "GetItem ex_store 5 ''missing''
      (snd (DeleteItem ex_store 1700000002500000000 5 ''missing'' ex_empty)) =
      ((Item_zero\<lparr>PK := fst (item_pksk 5 ''missing''), SK := snd (item_pksk 5 ''missing''),
                   Status := ItemStatusDiscontinued,
                   UpdatedAt := Format_RFC3339 1700000002500000000\<rparr>, None),
       snd (DeleteItem ex_store 1700000002500000000 5 ''missing'' ex_empty))"
    by blast
  from w client_ex_store have del: "DeleteItem ex_store 1700000002500000000 5 ''missing''
      ex_empty =
      (None, ex_empty(tableName ex_store :=
         AList.update (item_pksk 5 ''missing'')
           ((stored (ex_empty (tableName ex_store)) (item_pksk 5 ''missing''))
              (''Status'' \<mapsto> AttrN_int (sint ItemStatusDiscontinued),
               ''UpdatedAt'' \<mapsto> AttrT (Format_RFC3339 1700000002500000000)))
           (ex_empty (tableName ex_store))))"
    by blast
  have "snd (DeleteItem ex_store 1700000002500000000 5 ''missing'' ex_empty)
      (tableName ex_store) \<noteq> ex_empty (tableName ex_store)"
    unfolding del by (simp add: ex_empty_def)
  with g n p a show ?thesis
    by (simp add: h t client_ex_store)
qed

section \<open>Inventory adjustment\<close>

text \<open>The \<^verbatim>\<open>int32\<close> sum is the exact sum when the exact sum is an \<^verbatim>\<open>int32\<close>.\<close>

lemma sint_add_exact:
  fixes a b :: int32
  assumes "- (2 ^ 31) \<le> sint a + sint b" and "sint a + sint b < 2 ^ 31"
  shows "sint (a + b) = sint a + sint b"
  using assms by (simp add: sint_word_ariths signed_take_bit_int_eq_self)

lemma UpdateInventory_refused:
  assumes get: "GetItem s t i d = ((item, None), d1)"
    and neg: "sint (InventoryCount item + q) < 0"
  shows "UpdateInventory s now t i q r u d =
     ((Item_zero, InventoryCount item, Some (InsufficientInventory (InventoryCount item) q)),
      d1)"
  unfolding UpdateInventory_def get using neg by (simp add: Let_def)

text \<open>
  When the exact sum of the count \<open>c\<close> that was read and the quantity change is negative
  and still an \<^verbatim>\<open>int32\<close>, as it always is for a count that is not negative,
  \<^verbatim>\<open>UpdateInventory\<close> fails with the insufficient-inventory error, returns the zero
  item and \<open>c\<close> as the previous count, and leaves the backing store in the state after
  the read: no write is made. On the reference model that state is the initial one,
  and a following \<^verbatim>\<open>GetItem\<close> returns the unchanged item.
\<close>

lemma UpdateInventory_refused_in_range:
  assumes "GetItem s tenantID itemID d = ((item, None), d1)"
    and "- (2 ^ 31) \<le> sint (InventoryCount item) + sint quantityChange"
    and "sint (InventoryCount item) + sint quantityChange < 0"
  shows "UpdateInventory s now tenantID itemID quantityChange reason updatedBy d =
           ((Item_zero, InventoryCount item,
             Some (InsufficientInventory (InventoryCount item) quantityChange)), d1)"
proof -
  have "sint (InventoryCount item + quantityChange) =
      sint (InventoryCount item) + sint quantityChange"
    using assms(2,3) by (intro sint_add_exact) simp_all
  then have neg: "sint (InventoryCount item + quantityChange) < 0"
    using assms(3) by simp
  show ?thesis
    by (rule UpdateInventory_refused [OF assms(1) neg])
qed

lemma UpdateInventory_refused_nonnegative_count:
  assumes "GetItem s tenantID itemID d = ((item, None), d1)"
    and "0 \<le> sint (InventoryCount item)"
    and "sint (InventoryCount item) + sint quantityChange < 0"
  shows "UpdateInventory s now tenantID itemID quantityChange reason updatedBy d =
           ((Item_zero, InventoryCount item,
             Some (InsufficientInventory (InventoryCount item) quantityChange)), d1)"
proof -
  have "- (2 ^ 31) \<le> sint quantityChange"
    using sint_range_size [of quantityChange] by (simp add: word_size)
  with assms(2) have "- (2 ^ 31) \<le> sint (InventoryCount item) + sint quantityChange"
    by simp
  then show ?thesis
    by (rule UpdateInventory_refused_in_range [OF assms(1) _ assms(3)])
qed

lemma UpdateInventory_refused_no_write:
  assumes "client s = dynamo"
    and "GetItem s tenantID itemID d = ((item, None), d1)"
  shows "d1 = d \<and> GetItem s tenantID itemID d1 = ((item, None), d1)"
proof -
  have g: "client_GetItem (client s) = dynamo_GetItem"
    by (simp add: assms(1) dynamo_def)
  from GetItem_dynamo_Some [OF g assms(2)] have "d1 = d"
    by simp
  with assms(2) show ?thesis
    by simp
qed

text \<open>The scenario of a count of ten and a change of minus fifteen.\<close>

lemma UpdateInventory_refused_example:
  "UpdateInventory ex_store 1700000001000000000 5 ''id-1'' (- 15) ''sale'' ''bob''
       (snd ex_created) =
     ((Item_zero, 10, Some (InsufficientInventory 10 (- 15))), snd ex_created)"
proof -
  have n: "InventoryCount (fst (fst ex_created)) = 10"
    by (subst ex_created_item) simp
  have nn: "0 \<le> sint (InventoryCount (fst (fst ex_created)))"
    and neg: "sint (InventoryCount (fst (fst ex_created))) + sint (- 15 :: int32) < 0"
    unfolding n by simp_all
  show ?thesis
    using UpdateInventory_refused_nonnegative_count [OF ex_created_get nn neg]
    by (simp add: n)
qed

lemma ex_negative_ok:
  "CreateItem ex_store ''id-2'' 1700000000000000000 5 ''Gadget'' '''' 1 ItemCategoryHome
     '''' (- 2147483648) [] ''bob'' ex_empty =
   ((fst (fst ex_negative), None), snd ex_negative)"
  unfolding ex_negative_def by (rule CreateItem_dynamo_result [OF client_ex_store])

lemma ex_negative_count: "InventoryCount (fst (fst ex_negative)) = - 2147483648"
  by (subst CreateItem_Some [OF ex_negative_ok]) simp

lemma ex_negative_get:
  "GetItem ex_store 5 ''id-2'' (snd ex_negative) =
     ((fst (fst ex_negative), None), snd ex_negative)"
  by (rule CreateItem_then_GetItem [OF client_ex_store ex_negative_ok])

text \<open>
  Claim C1. The rule that a negative sum of the current count and the quantity change
  is refused fails on the code below the range of \<^verbatim>\<open>int32\<close>: the sum is computed in
  \<^verbatim>\<open>int32\<close> and wraps around. An item is created with the count \<open>-2147483648\<close>,
  which \<^verbatim>\<open>CreateItem\<close> accepts, and read back with that count. The exact sum with the
  change \<open>-1\<close> is negative, yet \<^verbatim>\<open>UpdateInventory\<close> returns no error, returns
  \<open>-2147483648\<close> as the previous count and an item with the count \<open>2147483647\<close>, and
  a following \<^verbatim>\<open>GetItem\<close> shows the count \<open>2147483647\<close>: the write was made.
\<close>

theorem UpdateInventory_wraps_below_int32:
  "snd (fst ex_negative) = None \<and>
   InventoryCount (fst (fst (GetItem ex_store 5 ''id-2'' (snd ex_negative)))) = - 2147483648 \<and>
   sint (- 2147483648 :: int32) + sint (- 1 :: int32) < 0 \<and>
   snd (snd (fst ex_wrapped)) = None \<and>
   fst (snd (fst ex_wrapped)) = - 2147483648 \<and>
   InventoryCount (fst (fst ex_wrapped)) = 2147483647 \<and>
   InventoryCount (fst (fst (GetItem ex_store 5 ''id-2'' (snd ex_wrapped)))) = 2147483647"
proof -
  have e: "snd (fst ex_negative) = None"
    using CreateItem_dynamo [OF client_ex_store, of "''id-2''" 1700000000000000000 5
        "''Gadget''" "''''" 1 ItemCategoryHome "''''" "- 2147483648" "[]" "''bob''" ex_empty
        "fst (fst ex_negative)" "snd (fst ex_negative)" "snd ex_negative"]
    by (simp add: ex_negative_def)
  have ok: "\<not> sint (InventoryCount (fst (fst ex_negative)) + (- 1)) < 0"
    unfolding ex_negative_count by simp
  from UpdateInventory_dynamo_ok [OF client_ex_store ex_negative_get ok,
      of 1700000001000000000 "''sale''" "''bob''"]
  obtain d' where u: "ex_wrapped =
        ((fst (fst ex_negative)\<lparr>InventoryCount := InventoryCount (fst (fst ex_negative)) + (- 1),
            UpdatedAt := Format_RFC3339 1700000001000000000, UpdatedBy := ''bob''\<rparr>,
          InventoryCount (fst (fst ex_negative)), None), d')"
    and g: "GetItem ex_store 5 ''id-2'' d' =
        ((fst (fst ex_negative)\<lparr>InventoryCount := InventoryCount (fst (fst ex_negative)) + (- 1),
            UpdatedAt := Format_RFC3339 1700000001000000000, UpdatedBy := ''bob''\<rparr>, None), d')"
    unfolding ex_wrapped_def by blast
  have d': "snd ex_wrapped = d'"
    by (simp add: u)
  show ?thesis
    unfolding d' g
    by (simp add: u e ex_negative_get ex_negative_count)
qed

section \<open>Failing operations\<close>

lemma GetItem_failure: "GetItem s t i d = ((item, Some err), d') \<Longrightarrow> item = Item_zero"
  by (auto simp: GetItem_def split: prod.splits sum.splits option.splits)

lemma CreateItem_failure:
  "CreateItem s newID now t n de p c sku cnt tags who d = ((item, Some err), d') \<Longrightarrow>
   item = Item_zero"
  by (auto simp: CreateItem_def Let_def split: prod.splits sum.splits option.splits)

lemma UpdateItem_failure:
  "UpdateItem s now t i n de p c st sku cnt tags who d = ((item, Some err), d') \<Longrightarrow>
   item = Item_zero"
  by (auto simp: UpdateItem_def Let_def split: prod.splits option.splits if_splits
      dest: GetItem_failure)

lemma ListItems_failure:
  "ListItems s t c st sq ps tok d = ((items, nextToken, returned, Some err), d') \<Longrightarrow>
   items = [] \<and> nextToken = '''' \<and> returned = 0"
  by (auto simp: ListItems_def Let_def split: prod.splits sum.splits)

lemma UpdateInventory_failure:
  assumes "UpdateInventory s now t i q r u d = ((item, prev, Some err), d')"
  shows "item = Item_zero \<and>
     (case GetItem s t i d of
        ((cur, Some e), d1) \<Rightarrow> prev = 0 \<and> err = e
      | ((cur, None), d1) \<Rightarrow> prev = InventoryCount cur)"
  using assms
  by (auto simp: UpdateInventory_def Let_def split: prod.splits option.splits if_splits)

text \<open>When the write is refused, the previous count comes back with the error.\<close>

lemma UpdateInventory_write_fails:
  assumes get: "GetItem s t i d = ((item, None), d1)"
    and ok: "\<not> sint (InventoryCount item + q) < 0"
    and w: "\<And>inp. client_UpdateItem (client s) inp d1 = (Some e, d2)"
  shows "UpdateInventory s now t i q r u d =
     ((Item_zero, InventoryCount item, Some (Errorf ''failed to update inventory'' e)), d2)"
  unfolding UpdateInventory_def get using ok by (simp add: Let_def w)

lemma ex_failing_get:
  "GetItem ex_failing 5 ''id-1'' (snd ex_created) =
     ((fst (fst ex_created), None), snd ex_created)"
proof -
  have "GetItem ex_failing 5 ''id-1'' (snd ex_created) =
      GetItem ex_store 5 ''id-1'' (snd ex_created)"
    by (simp add: GetItem_def ex_failing_def ex_store_def dynamo_failing_writes_def)
  then show ?thesis
    by (simp add: ex_created_get)
qed

lemma ex_created_count: "InventoryCount (fst (fst ex_created)) = 10"
  by (subst ex_created_item) simp

lemma ex_failing_write:
  "UpdateInventory ex_failing 1700000001000000000 5 ''id-1'' (- 3) ''sale'' ''bob''
       (snd ex_created) =
     ((Item_zero, 10, Some (Errorf ''failed to update inventory'' (SdkError ''RequestError''))),
      snd ex_created)"
proof -
  have ok: "\<not> sint (InventoryCount (fst (fst ex_created)) + (- 3)) < 0"
    unfolding ex_created_count by simp
  have w: "client_UpdateItem (client ex_failing) inp (snd ex_created) =
      (Some (SdkError ''RequestError''), snd ex_created)" for inp
    by (simp add: ex_failing_def dynamo_failing_writes_def)
  show ?thesis
    using UpdateInventory_write_fails [OF ex_failing_get ok w]
    by (simp add: ex_created_count)
qed

text \<open>
  Claim C9, amended. A failing \<^verbatim>\<open>UpdateInventory\<close> returns the zero item, and the
  previous count it returns is the count of the item it read: it is \<open>0\<close> only when
  the first read is what failed. So the count comes back with the insufficient-inventory
  error and equally with the error of a refused write and of a failed second read.
  The other failing operations of the store return zero values with the error:
  \<^verbatim>\<open>CreateItem\<close>, \<^verbatim>\<open>GetItem\<close> and \<^verbatim>\<open>UpdateItem\<close> the zero item, \<^verbatim>\<open>ListItems\<close> no
  items, an empty token and the count \<open>0\<close>.
\<close>

theorem failures_and_partial_values:
  "(UpdateInventory s now t i q r u d = ((item, prev, Some err), d') \<longrightarrow>
      item = Item_zero \<and>
      (case GetItem s t i d of
         ((cur, Some e), d1) \<Rightarrow> prev = 0 \<and> err = e
       | ((cur, None), d1) \<Rightarrow> prev = InventoryCount cur)) \<and>
   (CreateItem s newID now t n de p c sku cnt tags who d = ((item1, Some err1), d1') \<longrightarrow>
      item1 = Item_zero) \<and>
   (GetItem s t i d = ((item2, Some err2), d2') \<longrightarrow> item2 = Item_zero) \<and>
   (UpdateItem s now t i n de p c st sku cnt tags who d = ((item3, Some err3), d3') \<longrightarrow>
      item3 = Item_zero) \<and>
   (ListItems s t c st sq ps tok d = ((items, nextToken, returned, Some err4), d4') \<longrightarrow>
      items = [] \<and> nextToken = '''' \<and> returned = 0)"
  using UpdateInventory_failure [of s now t i q r u d item prev err d']
    CreateItem_failure [of s newID now t n de p c sku cnt tags who d item1 err1 d1']
    GetItem_failure [of s t i d item2 err2 d2']
    UpdateItem_failure [of s now t i n de p c st sku cnt tags who d item3 err3 d3']
    ListItems_failure [of s t c st sq ps tok d items nextToken returned err4 d4']
  by blast

text \<open>
  The claim as stated fails: with a backing store that refuses the write, the update
  of an item with count \<open>10\<close> by \<open>-3\<close> fails with a backing-store error, not with
  insufficient inventory, and still returns the previous count \<open>10\<close>.
\<close>

theorem failures_and_partial_values_counterexample:
  "GetItem ex_failing 5 ''id-1'' (snd ex_created) =
     ((fst (fst ex_created), None), snd ex_created) \<and>
   InventoryCount (fst (fst ex_created)) = 10 \<and>
   fst (UpdateInventory ex_failing 1700000001000000000 5 ''id-1'' (- 3) ''sale'' ''bob''
          (snd ex_created)) =
     (Item_zero, 10, Some (Errorf ''failed to update inventory'' (SdkError ''RequestError'')))"
  by (simp add: ex_failing_get ex_created_count ex_failing_write)

theorem failures_and_partial_values_witness:
  "UpdateInventory ex_store 1700000001000000000 5 ''missing'' 1 ''restock'' ''bob'' ex_empty =
     ((Item_zero, 0, Some ErrItemNotFound), ex_empty) \<and>
   CreateItem ex_failing ''id-3'' 1700000000000000000 5 ''Gadget'' '''' 1 ItemCategoryHome ''''
       1 [] ''bob'' ex_empty =
     ((Item_zero, Some (Errorf ''failed to put item'' (SdkError ''RequestError''))), ex_empty) \<and>
   GetItem ex_store 5 ''missing'' ex_empty = ((Item_zero, Some ErrItemNotFound), ex_empty) \<and>
   UpdateItem ex_failing 1700000001000000000 5 ''id-1'' ''Widget'' '''' 1 ItemCategoryBooks
       ItemStatusActive '''' 1 [] ''bob'' (snd ex_created) =
     ((Item_zero, Some (Errorf ''failed to update item'' (SdkError ''RequestError''))),
      snd ex_created) \<and>
   ListItems ex_store 5 ItemCategoryUnspecified ItemStatusUnspecified '''' 0 '''' ex_empty =
     (([], '''', 0, Some (Errorf ''failed to list items'' ValidationException)), ex_empty)"
proof -
  have g: "GetItem ex_store 5 ''missing'' ex_empty =
      ((Item_zero, Some ErrItemNotFound), ex_empty)"
    unfolding GetItem_dynamo [OF client_ex_store]
    by (simp add: ex_empty_def)
  have u: "UpdateInventory ex_store 1700000001000000000 5 ''missing'' 1 ''restock'' ''bob''
      ex_empty = ((Item_zero, 0, Some ErrItemNotFound), ex_empty)"
    unfolding UpdateInventory_def g by simp
  have c: "CreateItem ex_failing ''id-3'' 1700000000000000000 5 ''Gadget'' '''' 1
      ItemCategoryHome '''' 1 [] ''bob'' ex_empty =
      ((Item_zero, Some (Errorf ''failed to put item'' (SdkError ''RequestError''))), ex_empty)"
    by (simp add: CreateItem_def MarshalMap_def Let_def ex_failing_def
        dynamo_failing_writes_def)
  have w: "UpdateItem ex_failing 1700000001000000000 5 ''id-1'' ''Widget'' '''' 1
      ItemCategoryBooks ItemStatusActive '''' 1 [] ''bob'' (snd ex_created) =
      ((Item_zero, Some (Errorf ''failed to update item'' (SdkError ''RequestError''))),
       snd ex_created)"
    by (simp add: UpdateItem_def Let_def ex_failing_def dynamo_failing_writes_def)
  have l: "ListItems ex_store 5 ItemCategoryUnspecified ItemStatusUnspecified '''' 0 ''''
      ex_empty =
      (([], '''', 0, Some (Errorf ''failed to list items'' ValidationException)), ex_empty)"
    by (simp add: ListItems_def ListItems_input_def ex_store_def dynamo_def dynamo_Query_def)
  show ?thesis
    using g u c w l
      failures_and_partial_values [of ex_store 1700000001000000000 5 "''missing''" 1
        "''restock''" "''bob''" ex_empty Item_zero 0 ErrItemNotFound ex_empty]
    by simp
qed

section \<open>Validation in the handler\<close>

text \<open>
  Claim C7. Each handler checks its request before it calls the store: a tenant
  identifier that is not positive (all six operations), an empty item identifier (get,
  update, delete, inventory update), an empty name or a negative price (create,
  update) are answered with \<open>InvalidArgument\<close>, and the state of the store is
  returned untouched, whatever the store is: the store is not called. For a list
  request that passes, the store is called exactly once, with the page size \<open>100\<close> in
  place of a page size that is not positive and \<open>1000\<close> in place of one above
  \<open>1000\<close>.
\<close>

theorem handler_validates_before_store:
  "((sint (cr_TenantId cr) \<le> 0 \<or> cr_Name cr = '''' \<or> cr_Price cr < 0) \<longrightarrow>
      (\<exists>msg. Server_CreateItem s cr st = (Inl (Status_Error InvalidArgument msg), st))) \<and>
   ((sint (gr_TenantId gr) \<le> 0 \<or> gr_Id gr = '''') \<longrightarrow>
      (\<exists>msg. Server_GetItem s gr st = (Inl (Status_Error InvalidArgument msg), st))) \<and>
   ((sint (ur_TenantId ur) \<le> 0 \<or> ur_Id ur = '''' \<or> ur_Name ur = '''' \<or> ur_Price ur < 0) \<longrightarrow>
      (\<exists>msg. Server_UpdateItem s ur st = (Inl (Status_Error InvalidArgument msg), st))) \<and>
   ((sint (dr_TenantId dr) \<le> 0 \<or> dr_Id dr = '''') \<longrightarrow>
      (\<exists>msg. Server_DeleteItem s dr st = (Inl (Status_Error InvalidArgument msg), st))) \<and>
   (sint (lr_TenantId lr) \<le> 0 \<longrightarrow>
      (\<exists>msg. Server_ListItems s lr st = (Inl (Status_Error InvalidArgument msg), st))) \<and>
   ((sint (ir_TenantId ir) \<le> 0 \<or> ir_ItemId ir = '''') \<longrightarrow>
      (\<exists>msg. Server_UpdateInventory s ir st = (Inl (Status_Error InvalidArgument msg), st))) \<and>
   (0 < sint (lr_TenantId lr) \<longrightarrow>
      snd (Server_ListItems \<lparr>store = recording_store\<rparr> lr calls) =
        calls @ [Call_ListItems (lr_TenantId lr) (protoToDataCategory (lr_Category lr))
                 (protoToDataStatus (lr_Status lr)) (lr_SearchQuery lr)
                 (if sint (lr_PageSize lr) \<le> 0 then 100
                  else if 1000 < sint (lr_PageSize lr) then 1000 else lr_PageSize lr)
                 (lr_PageToken lr)])"
proof -
  have 1: "(sint (cr_TenantId cr) \<le> 0 \<or> cr_Name cr = '''' \<or> cr_Price cr < 0) \<longrightarrow>
      (\<exists>msg. Server_CreateItem s cr st = (Inl (Status_Error InvalidArgument msg), st))"
    by (simp add: Server_CreateItem_def)
  have 2: "(sint (gr_TenantId gr) \<le> 0 \<or> gr_Id gr = '''') \<longrightarrow>
      (\<exists>msg. Server_GetItem s gr st = (Inl (Status_Error InvalidArgument msg), st))"
    by (simp add: Server_GetItem_def)
  have 3: "(sint (ur_TenantId ur) \<le> 0 \<or> ur_Id ur = '''' \<or> ur_Name ur = '''' \<or>
       ur_Price ur < 0) \<longrightarrow>
      (\<exists>msg. Server_UpdateItem s ur st = (Inl (Status_Error InvalidArgument msg), st))"
    by (simp add: Server_UpdateItem_def)
  have 4: "(sint (dr_TenantId dr) \<le> 0 \<or> dr_Id dr = '''') \<longrightarrow>
      (\<exists>msg. Server_DeleteItem s dr st = (Inl (Status_Error InvalidArgument msg), st))"
    by (simp add: Server_DeleteItem_def)
  have 5: "sint (lr_TenantId lr) \<le> 0 \<longrightarrow>
      (\<exists>msg. Server_ListItems s lr st = (Inl (Status_Error InvalidArgument msg), st))"
    by (simp add: Server_ListItems_def)
  have 6: "(sint (ir_TenantId ir) \<le> 0 \<or> ir_ItemId ir = '''') \<longrightarrow>
      (\<exists>msg. Server_UpdateInventory s ir st = (Inl (Status_Error InvalidArgument msg), st))"
    by (simp add: Server_UpdateInventory_def)
  have 7: "0 < sint (lr_TenantId lr) \<longrightarrow>
      snd (Server_ListItems \<lparr>store = recording_store\<rparr> lr calls) =
        calls @ [Call_ListItems (lr_TenantId lr) (protoToDataCategory (lr_Category lr))
                 (protoToDataStatus (lr_Status lr)) (lr_SearchQuery lr)
                 (if sint (lr_PageSize lr) \<le> 0 then 100
                  else if 1000 < sint (lr_PageSize lr) then 1000 else lr_PageSize lr)
                 (lr_PageToken lr)]"
    by (simp add: Server_ListItems_def recording_store_def Let_def)
  from 1 2 3 4 5 6 7 show ?thesis
    by (intro conjI)
qed

theorem handler_validates_before_store_witness:
  "Server_CreateItem \<lparr>store = recording_store\<rparr> ex_cr_bad [] =
     (Inl (Status_Error InvalidArgument ''price cannot be negative''), []) \<and>
   Server_GetItem \<lparr>store = recording_store\<rparr> ex_gr_bad [] =
     (Inl (Status_Error InvalidArgument ''id is required''), []) \<and>
   Server_UpdateItem \<lparr>store = recording_store\<rparr> ex_ur_bad [] =
     (Inl (Status_Error InvalidArgument ''name is required''), []) \<and>
   Server_DeleteItem \<lparr>store = recording_store\<rparr> ex_dr_bad [] =
     (Inl (Status_Error InvalidArgument ''tenant_id must be positive''), []) \<and>
   Server_ListItems \<lparr>store = recording_store\<rparr> ex_lr_bad [] =
     (Inl (Status_Error InvalidArgument ''tenant_id must be positive''), []) \<and>
   Server_UpdateInventory \<lparr>store = recording_store\<rparr> ex_ir_bad [] =
     (Inl (Status_Error InvalidArgument ''item_id is required''), []) \<and>
   snd (Server_ListItems \<lparr>store = recording_store\<rparr> ex_lr_zero []) =
     [Call_ListItems 5 ItemCategoryBooks ItemStatusUnspecified ''w'' 100 ''ITEM#id-1''] \<and>
   snd (Server_ListItems \<lparr>store = recording_store\<rparr> ex_lr_big []) =
     [Call_ListItems 5 ItemCategoryBooks ItemStatusUnspecified ''w'' 1000 ''ITEM#id-1'']"
proof -
  have bad: "cr_Price ex_cr_bad < 0" "gr_Id ex_gr_bad = ''''" "ur_Name ex_ur_bad = ''''"
    "sint (dr_TenantId ex_dr_bad) \<le> 0" "sint (lr_TenantId ex_lr_bad) \<le> 0"
    "ir_ItemId ex_ir_bad = ''''"
    by (simp_all add: ex_cr_bad_def ex_gr_bad_def ex_ur_bad_def ex_dr_bad_def ex_lr_bad_def
        ex_ir_bad_def)
  have good: "0 < sint (lr_TenantId ex_lr_zero)" "0 < sint (lr_TenantId ex_lr_big)"
    by (simp_all add: ex_lr_zero_def ex_lr_big_def)
  note a = handler_validates_before_store [of ex_cr_bad "\<lparr>store = recording_store\<rparr>" "[]"
      ex_gr_bad ex_ur_bad ex_dr_bad ex_lr_bad ex_ir_bad "[]"]
  note b = handler_validates_before_store [of ex_cr_bad "\<lparr>store = recording_store\<rparr>" "[]"
      ex_gr_bad ex_ur_bad ex_dr_bad ex_lr_zero ex_ir_bad "[]"]
  note c = handler_validates_before_store [of ex_cr_bad "\<lparr>store = recording_store\<rparr>" "[]"
      ex_gr_bad ex_ur_bad ex_dr_bad ex_lr_big ex_ir_bad "[]"]
  have 1: "Server_CreateItem \<lparr>store = recording_store\<rparr> ex_cr_bad [] =
      (Inl (Status_Error InvalidArgument ''price cannot be negative''), [])"
    by (simp add: Server_CreateItem_def ex_cr_bad_def)
  have 2: "Server_GetItem \<lparr>store = recording_store\<rparr> ex_gr_bad [] =
      (Inl (Status_Error InvalidArgument ''id is required''), [])"
    by (simp add: Server_GetItem_def ex_gr_bad_def)
  have 3: "Server_UpdateItem \<lparr>store = recording_store\<rparr> ex_ur_bad [] =
      (Inl (Status_Error InvalidArgument ''name is required''), [])"
    by (simp add: Server_UpdateItem_def ex_ur_bad_def)
  have 4: "Server_DeleteItem \<lparr>store = recording_store\<rparr> ex_dr_bad [] =
      (Inl (Status_Error InvalidArgument ''tenant_id must be positive''), [])"
    by (simp add: Server_DeleteItem_def ex_dr_bad_def)
  have 5: "Server_ListItems \<lparr>store = recording_store\<rparr> ex_lr_bad [] =
      (Inl (Status_Error InvalidArgument ''tenant_id must be positive''), [])"
    by (simp add: Server_ListItems_def ex_lr_bad_def)
  have 6: "Server_UpdateInventory \<lparr>store = recording_store\<rparr> ex_ir_bad [] =
      (Inl (Status_Error InvalidArgument ''item_id is required''), [])"
    by (simp add: Server_UpdateInventory_def ex_ir_bad_def)
  have 7: "snd (Server_ListItems \<lparr>store = recording_store\<rparr> ex_lr_zero []) =
      [Call_ListItems 5 ItemCategoryBooks ItemStatusUnspecified ''w'' 100 ''ITEM#id-1'']"
    using b good(1) by (simp add: ex_lr_zero_def)
  have 8: "snd (Server_ListItems \<lparr>store = recording_store\<rparr> ex_lr_big []) =
      [Call_ListItems 5 ItemCategoryBooks ItemStatusUnspecified ''w'' 1000 ''ITEM#id-1'']"
    using c good(2) by (simp add: ex_lr_big_def ex_lr_zero_def)
  from a bad 1 2 3 4 5 6 7 8 show ?thesis
    by blast
qed

section \<open>Filters, counts and page tokens\<close>

text \<open>The loop keeps, in order, the decodable records that pass both filters.\<close>

lemma ListItems_loop_filter:
  "ListItems_loop c st ms acc =
     acc @ filter (\<lambda>i. (c = ItemCategoryUnspecified \<or> Category i = c) \<and>
                        (st = ItemStatusUnspecified \<or> Status i = st)) (page_items ms)"
  by (induction ms arbitrary: acc)
     (auto simp: page_items_def split: sum.splits)

lemma sint_length:
  "n < 2 ^ 31 \<Longrightarrow> sint (word_of_nat n :: int32) = int n"
  by (simp add: signed_of_nat signed_take_bit_int_eq_self)

lemma ListItems_Inr:
  assumes "client_Query (client s) (ListItems_input s t ps tok) d = (Inr result, d')"
  shows "ListItems s t c st sq ps tok d =
     ((filter (\<lambda>i. (c = ItemCategoryUnspecified \<or> Category i = c) \<and>
                    (st = ItemStatusUnspecified \<or> Status i = st))
         (page_items (res_Items result)),
       ListItems_token (res_LastEvaluatedKey result),
       word_of_nat (length (filter (\<lambda>i. (c = ItemCategoryUnspecified \<or> Category i = c) \<and>
                    (st = ItemStatusUnspecified \<or> Status i = st))
         (page_items (res_Items result)))),
       None), d')"
  by (simp add: ListItems_def assms Let_def ListItems_loop_filter)

lemma ListItems_Inl:
  assumes "client_Query (client s) (ListItems_input s t ps tok) d = (Inl e, d')"
  shows "ListItems s t c st sq ps tok d =
     (([], '''', 0, Some (Errorf ''failed to list items'' e)), d')"
  by (simp add: ListItems_def assms)

subsection \<open>The example listing\<close>

lemma ex_two_ok:
  "CreateItem ex_store ''id-3'' 1700000000500000000 5 ''Phone'' '''' 300
       ItemCategoryElectronics ''SKU-3'' 4 [] ''bob'' (snd ex_created) =
   ((fst (fst ex_two), None), snd ex_two)"
  unfolding ex_two_def by (rule CreateItem_dynamo_result [OF client_ex_store])

lemma ex_two_table:
  "\<exists>av1 av3. MarshalMap (fst (fst ex_created)) = Inr av1 \<and>
     MarshalMap (fst (fst ex_two)) = Inr av3 \<and>
     snd ex_two (tableName ex_store) =
       [(item_pksk 5 ''id-1'', av1), (item_pksk 5 ''id-3'', av3)]"
proof -
  from CreateItem_dynamo [OF client_ex_store ex_created_ok] obtain av1
    where av1: "MarshalMap (fst (fst ex_created)) = Inr av1"
      and d1: "snd ex_created = ex_empty(tableName ex_store :=
        AList.update (PK (fst (fst ex_created)), SK (fst (fst ex_created))) av1
          (ex_empty (tableName ex_store)))"
    by blast
  from CreateItem_dynamo [OF client_ex_store ex_two_ok] obtain av3
    where av3: "MarshalMap (fst (fst ex_two)) = Inr av3"
      and d3: "snd ex_two = (snd ex_created)(tableName ex_store :=
        AList.update (PK (fst (fst ex_two)), SK (fst (fst ex_two))) av3
          (snd ex_created (tableName ex_store)))"
    by blast
  have k1: "(PK (fst (fst ex_created)), SK (fst (fst ex_created))) = item_pksk 5 ''id-1''"
    by (subst (1 2) ex_created_item) (simp add: item_pksk_def)
  have k3: "(PK (fst (fst ex_two)), SK (fst (fst ex_two))) = item_pksk 5 ''id-3''"
    by (subst (1 2) CreateItem_Some [OF ex_two_ok]) (simp add: item_pksk_def)
  have "snd ex_two (tableName ex_store) =
      [(item_pksk 5 ''id-1'', av1), (item_pksk 5 ''id-3'', av3)]"
    unfolding d3 d1 k1 k3 by (simp add: ex_empty_def item_pksk_def)
  with av1 av3 show ?thesis by blast
qed

lemma ex_two_categories:
  "Category (fst (fst ex_created)) = ItemCategoryBooks"
  "Category (fst (fst ex_two)) = ItemCategoryElectronics"
  by (subst ex_created_item, simp) (subst CreateItem_Some [OF ex_two_ok], simp)

text \<open>
  The first page of two records holds both items; only the book passes the filter,
  and the token is the sort key of the last record of the page, which the filter
  dropped.
\<close>

lemma ex_listed_result:
  "\<exists>result. client_Query (client ex_store) (ListItems_input ex_store 5 2 '''') (snd ex_two) =
       (Inr result, snd ex_two) \<and>
     length (res_Items result) = 2 \<and>
     res_LastEvaluatedKey result = Some (key_attrs (item_pksk 5 ''id-3'')) \<and>
     ex_listed = (([fst (fst ex_created)], ''ITEM#id-3'', 1, None), snd ex_two)"
proof -
  from ex_two_table obtain av1 av3
    where av1: "MarshalMap (fst (fst ex_created)) = Inr av1"
      and av3: "MarshalMap (fst (fst ex_two)) = Inr av3"
      and t: "snd ex_two (tableName ex_store) =
        [(item_pksk 5 ''id-1'', av1), (item_pksk 5 ''id-3'', av3)]"
    by blast
  define result where "result =
    \<lparr>res_Items = [av1, av3], res_LastEvaluatedKey = Some (key_attrs (item_pksk 5 ''id-3''))\<rparr>"
  have "dynamo_Query (ListItems_input ex_store 5 2 '''') (snd ex_two) = (Inr result, snd ex_two)"
    by (simp add: dynamo_Query_def ListItems_input_def t query_page_def item_pksk_def
        begins_with_def result_def)
  then have q: "client_Query (client ex_store) (ListItems_input ex_store 5 2 '''') (snd ex_two) =
      (Inr result, snd ex_two)"
    by (simp add: client_ex_store dynamo_def)
  have p: "page_items (res_Items result) = [fst (fst ex_created), fst (fst ex_two)]"
    by (simp add: result_def page_items_def Unmarshal_Marshal [OF av1]
        Unmarshal_Marshal [OF av3])
  have k: "ListItems_token (res_LastEvaluatedKey result) = ''ITEM#id-3''"
    by (simp add: result_def ListItems_token_def key_attrs_def item_pksk_def)
  have "ex_listed = (([fst (fst ex_created)], ''ITEM#id-3'', 1, None), snd ex_two)"
    unfolding ex_listed_def ListItems_Inr [OF q] p k
    by (simp add: ex_two_categories ItemCategoryBooks_def ItemCategoryElectronics_def
        ItemCategoryUnspecified_def)
  with q show ?thesis
    by (auto simp: result_def)
qed

text \<open>
  Claim C2. Whatever \<^verbatim>\<open>ListItems\<close> returns: with a category filter other than
  unspecified every returned item has that category, with a status filter other than
  unspecified every returned item has that status, and the returned count is the
  length of the returned sequence as an \<^verbatim>\<open>int32\<close> (the length itself below \<open>2^31\<close>).
  When the query succeeds, the returned sequence is the decodable records of the page
  that pass the filters, in page order: an unspecified filter lets every item pass.
\<close>

theorem ListItems_filters_and_counts:
  assumes "ListItems s tenantID category status searchQuery pageSize pageToken d =
             ((items, nextPageToken, returned, err), d')"
  shows "(category \<noteq> ItemCategoryUnspecified \<longrightarrow> (\<forall>i \<in> set items. Category i = category)) \<and>
         (status \<noteq> ItemStatusUnspecified \<longrightarrow> (\<forall>i \<in> set items. Status i = status)) \<and>
         returned = word_of_nat (length items) \<and>
         (length items < 2 ^ 31 \<longrightarrow> sint returned = int (length items)) \<and>
         (\<forall>result d1.
            client_Query (client s) (ListItems_input s tenantID pageSize pageToken) d =
              (Inr result, d1) \<longrightarrow>
            err = None \<and>
            items = filter (\<lambda>i. (category = ItemCategoryUnspecified \<or> Category i = category) \<and>
                                (status = ItemStatusUnspecified \<or> Status i = status))
                      (page_items (res_Items result)) \<and>
            (category = ItemCategoryUnspecified \<and> status = ItemStatusUnspecified \<longrightarrow>
               items = page_items (res_Items result)))"
proof (cases "client_Query (client s) (ListItems_input s tenantID pageSize pageToken) d")
  case (Pair r d1)
  show ?thesis
  proof (cases r)
    case (Inl e)
    with Pair have q: "client_Query (client s) (ListItems_input s tenantID pageSize pageToken) d =
        (Inl e, d1)"
      by simp
    from assms have "items = []" "returned = 0"
      unfolding ListItems_Inl [OF q] by auto
    with q show ?thesis
      by simp
  next
    case (Inr result)
    with Pair have q: "client_Query (client s) (ListItems_input s tenantID pageSize pageToken) d =
        (Inr result, d1)"
      by simp
    from assms have i: "items =
        filter (\<lambda>i. (category = ItemCategoryUnspecified \<or> Category i = category) \<and>
                    (status = ItemStatusUnspecified \<or> Status i = status))
          (page_items (res_Items result))"
      and n: "returned = word_of_nat (length items)" and e: "err = None"
      unfolding ListItems_Inr [OF q] by auto
    have c: "category \<noteq> ItemCategoryUnspecified \<longrightarrow> (\<forall>i \<in> set items. Category i = category)"
      and s: "status \<noteq> ItemStatusUnspecified \<longrightarrow> (\<forall>i \<in> set items. Status i = status)"
      and u: "category = ItemCategoryUnspecified \<and> status = ItemStatusUnspecified \<longrightarrow>
        items = page_items (res_Items result)"
      unfolding i by auto
    have l: "length items < 2 ^ 31 \<longrightarrow> sint returned = int (length items)"
      unfolding n by (simp add: sint_length)
    from q i n e c s u l show ?thesis
      by simp
  qed
qed

theorem ListItems_filters_and_counts_witness:
  "fst ex_listed = ([fst (fst ex_created)], ''ITEM#id-3'', 1, None) \<and>
   ItemCategoryBooks \<noteq> ItemCategoryUnspecified \<and>
   Category (fst (fst ex_created)) = ItemCategoryBooks \<and>
   sint (1 :: int32) = int (length [fst (fst ex_created)]) \<and>
   (\<exists>result. client_Query (client ex_store) (ListItems_input ex_store 5 2 '''') (snd ex_two) =
       (Inr result, snd ex_two) \<and> length (res_Items result) = 2)"
proof -
  from ex_listed_result obtain result
    where q: "client_Query (client ex_store) (ListItems_input ex_store 5 2 '''') (snd ex_two) =
        (Inr result, snd ex_two)"
      and n: "length (res_Items result) = 2"
      and l: "ex_listed = (([fst (fst ex_created)], ''ITEM#id-3'', 1, None), snd ex_two)"
    by blast
  have b: "ItemCategoryBooks \<noteq> ItemCategoryUnspecified"
    by (simp add: ItemCategoryBooks_def ItemCategoryUnspecified_def)
  have h: "ListItems ex_store 5 ItemCategoryBooks ItemStatusUnspecified ''phone'' 2 ''''
      (snd ex_two) = (([fst (fst ex_created)], ''ITEM#id-3'', 1, None), snd ex_two)"
    using l by (simp add: ex_listed_def)
  from ListItems_filters_and_counts [OF h] b
  have "Category (fst (fst ex_created)) = ItemCategoryBooks"
    and "sint (1 :: int32) = int (length [fst (fst ex_created)])"
    by simp_all
  with q n b show ?thesis
    by (auto simp: l)
qed

text \<open>
  The page after the token \<^verbatim>\<open>ITEM#id-1\<close> with a page size of one holds the second
  item; a page size of ten reads both items and reports no last evaluated key.
\<close>

lemma ex_next_result:
  "\<exists>result. client_Query (client ex_store) (ListItems_input ex_store 5 1 ''ITEM#id-1'')
         (snd ex_two) = (Inr result, snd ex_two) \<and>
     res_LastEvaluatedKey result = Some (key_attrs (item_pksk 5 ''id-3'')) \<and>
     ex_next = (([fst (fst ex_two)], ''ITEM#id-3'', 1, None), snd ex_two)"
proof -
  from ex_two_table obtain av1 av3
    where av3: "MarshalMap (fst (fst ex_two)) = Inr av3"
      and t: "snd ex_two (tableName ex_store) =
        [(item_pksk 5 ''id-1'', av1), (item_pksk 5 ''id-3'', av3)]"
    by blast
  define result where "result =
    \<lparr>res_Items = [av3], res_LastEvaluatedKey = Some (key_attrs (item_pksk 5 ''id-3''))\<rparr>"
  have "dynamo_Query (ListItems_input ex_store 5 1 ''ITEM#id-1'') (snd ex_two) =
      (Inr result, snd ex_two)"
    by (simp add: dynamo_Query_def ListItems_input_def t query_page_def item_pksk_def
        begins_with_def result_def key_of_def)
  then have q: "client_Query (client ex_store) (ListItems_input ex_store 5 1 ''ITEM#id-1'')
      (snd ex_two) = (Inr result, snd ex_two)"
    by (simp add: client_ex_store dynamo_def)
  have p: "page_items (res_Items result) = [fst (fst ex_two)]"
    by (simp add: result_def page_items_def Unmarshal_Marshal [OF av3])
  have k: "ListItems_token (res_LastEvaluatedKey result) = ''ITEM#id-3''"
    by (simp add: result_def ListItems_token_def key_attrs_def item_pksk_def)
  have "ex_next = (([fst (fst ex_two)], ''ITEM#id-3'', 1, None), snd ex_two)"
    unfolding ex_next_def ListItems_Inr [OF q] p k
    by simp
  with q show ?thesis
    by (auto simp: result_def)
qed

lemma ex_all_result:
  "\<exists>result. client_Query (client ex_store) (ListItems_input ex_store 5 10 '''')
         (snd ex_two) = (Inr result, snd ex_two) \<and>
     res_LastEvaluatedKey result = None \<and>
     ex_all = (([fst (fst ex_created), fst (fst ex_two)], '''', 2, None), snd ex_two)"
proof -
  from ex_two_table obtain av1 av3
    where av1: "MarshalMap (fst (fst ex_created)) = Inr av1"
      and av3: "MarshalMap (fst (fst ex_two)) = Inr av3"
      and t: "snd ex_two (tableName ex_store) =
        [(item_pksk 5 ''id-1'', av1), (item_pksk 5 ''id-3'', av3)]"
    by blast
  define result where "result = \<lparr>res_Items = [av1, av3], res_LastEvaluatedKey = None\<rparr>"
  have "dynamo_Query (ListItems_input ex_store 5 10 '''') (snd ex_two) =
      (Inr result, snd ex_two)"
    by (simp add: dynamo_Query_def ListItems_input_def t query_page_def item_pksk_def
        begins_with_def result_def)
  then have q: "client_Query (client ex_store) (ListItems_input ex_store 5 10 '''')
      (snd ex_two) = (Inr result, snd ex_two)"
    by (simp add: client_ex_store dynamo_def)
  have p: "page_items (res_Items result) = [fst (fst ex_created), fst (fst ex_two)]"
    by (simp add: result_def page_items_def Unmarshal_Marshal [OF av1]
        Unmarshal_Marshal [OF av3])
  have k: "ListItems_token (res_LastEvaluatedKey result) = ''''"
    by (simp add: result_def ListItems_token_def)
  have "ex_all = (([fst (fst ex_created), fst (fst ex_two)], '''', 2, None), snd ex_two)"
    unfolding ex_all_def ListItems_Inr [OF q] p k
    by simp
  with q show ?thesis
    by (auto simp: result_def)
qed

text \<open>
  Claim C3. \<^verbatim>\<open>ListItems\<close> makes one query, with the input built from its arguments. A
  page token that is not empty is the \<^verbatim>\<open>SK\<close> string of the exclusive start key of
  that query, as it was passed in, next to the tenant's partition key; with an empty
  page token the query has no exclusive start key. When the query succeeds, the next
  page token is the \<^verbatim>\<open>SK\<close> string of the last evaluated key that the backing store
  reports, and empty when it reports none; the state is the one the query left.
\<close>

theorem ListItems_page_tokens:
  assumes "client_Query (client s) (ListItems_input s tenantID pageSize pageToken) d =
             (Inr result, d1)"
    and "ListItems s tenantID category status searchQuery pageSize pageToken d =
           ((items, nextPageToken, returned, err), d')"
  shows "(res_LastEvaluatedKey result = None \<longrightarrow> nextPageToken = '''') \<and>
         (\<forall>k v. res_LastEvaluatedKey result = Some k \<longrightarrow> k ''SK'' = Some (AttrS v) \<longrightarrow>
                nextPageToken = v) \<and>
         (pageToken \<noteq> '''' \<longrightarrow>
            qry_ExclusiveStartKey (ListItems_input s tenantID pageSize pageToken) =
              Some [''PK'' \<mapsto> AttrS (''TENANT#'' @ Sprintf_d (sint tenantID)),
                    ''SK'' \<mapsto> AttrS pageToken]) \<and>
         (pageToken = '''' \<longrightarrow>
            qry_ExclusiveStartKey (ListItems_input s tenantID pageSize pageToken) = None) \<and>
         d' = d1"
proof -
  from assms(2) have t: "nextPageToken = ListItems_token (res_LastEvaluatedKey result)"
    and d: "d' = d1"
    unfolding ListItems_Inr [OF assms(1)] by auto
  have 1: "res_LastEvaluatedKey result = None \<longrightarrow> nextPageToken = ''''"
    unfolding t by (simp add: ListItems_token_def)
  have 2: "\<forall>k v. res_LastEvaluatedKey result = Some k \<longrightarrow> k ''SK'' = Some (AttrS v) \<longrightarrow>
      nextPageToken = v"
    unfolding t by (simp add: ListItems_token_def)
  have 3: "pageToken \<noteq> '''' \<longrightarrow>
      qry_ExclusiveStartKey (ListItems_input s tenantID pageSize pageToken) =
        Some [''PK'' \<mapsto> AttrS (''TENANT#'' @ Sprintf_d (sint tenantID)),
              ''SK'' \<mapsto> AttrS pageToken]"
    by (simp add: ListItems_input_def)
  have 4: "pageToken = '''' \<longrightarrow>
      qry_ExclusiveStartKey (ListItems_input s tenantID pageSize pageToken) = None"
    by (simp add: ListItems_input_def)
  from 1 2 3 4 d show ?thesis
    by (intro conjI)
qed

theorem ListItems_page_tokens_witness:
  "fst ex_listed = ([fst (fst ex_created)], ''ITEM#id-3'', 1, None) \<and>
   SK (fst (fst ex_two)) = ''ITEM#id-3'' \<and>
   qry_ExclusiveStartKey (ListItems_input ex_store 5 2 '''') = None \<and>
   fst ex_next = ([fst (fst ex_two)], ''ITEM#id-3'', 1, None) \<and>
   qry_ExclusiveStartKey (ListItems_input ex_store 5 1 ''ITEM#id-1'') =
     Some [''PK'' \<mapsto> AttrS (''TENANT#'' @ Sprintf_d (sint (5 :: int64))),
           ''SK'' \<mapsto> AttrS ''ITEM#id-1''] \<and>
   fst ex_all = ([fst (fst ex_created), fst (fst ex_two)], '''', 2, None)"
proof -
  from ex_listed_result obtain r1
    where q1: "client_Query (client ex_store) (ListItems_input ex_store 5 2 '''') (snd ex_two) =
        (Inr r1, snd ex_two)"
      and k1: "res_LastEvaluatedKey r1 = Some (key_attrs (item_pksk 5 ''id-3''))"
      and l1: "ex_listed = (([fst (fst ex_created)], ''ITEM#id-3'', 1, None), snd ex_two)"
    by blast
  from ex_next_result obtain r2
    where q2: "client_Query (client ex_store) (ListItems_input ex_store 5 1 ''ITEM#id-1'')
        (snd ex_two) = (Inr r2, snd ex_two)"
      and k2: "res_LastEvaluatedKey r2 = Some (key_attrs (item_pksk 5 ''id-3''))"
      and l2: "ex_next = (([fst (fst ex_two)], ''ITEM#id-3'', 1, None), snd ex_two)"
    by blast
  from ex_all_result obtain r3
    where q3: "client_Query (client ex_store) (ListItems_input ex_store 5 10 '''') (snd ex_two) =
        (Inr r3, snd ex_two)"
      and k3: "res_LastEvaluatedKey r3 = None"
      and l3: "ex_all = (([fst (fst ex_created), fst (fst ex_two)], '''', 2, None), snd ex_two)"
    by blast
  have sk: "SK (fst (fst ex_two)) = ''ITEM#id-3''"
    by (subst CreateItem_Some [OF ex_two_ok]) simp
  have ne: "''ITEM#id-1'' \<noteq> ''''"
    by simp
  note a = ListItems_page_tokens [OF q1 l1 [unfolded ex_listed_def]]
  note b = ListItems_page_tokens [OF q2 l2 [unfolded ex_next_def]]
  note c = ListItems_page_tokens [OF q3 l3 [unfolded ex_all_def]]
  from a b c ne show ?thesis
    by (simp add: l1 l2 l3 sk)
qed

end
